theory Spec2Isabelle
  imports Complex_Main "HOL-Library.AList"
begin

section \<open>Python values, exceptions and arithmetic\<close>

text \<open>
  The checker of \<^verbatim>\<open>spark_dq_framework.py\<close> is a Python class over a Spark DataFrame.
  Values that travel through it (cells of rows, statistics, the details of a result) are
  dynamically typed; \<open>pyval\<close> is the part of Python's value space the code touches.
  \<open>PFloat\<close> carries the exact rational value of a finite IEEE double, \<open>PDecimal\<close> the
  value of a \<^verbatim>\<open>decimal.Decimal\<close>, which is what Spark returns for a DECIMAL column.
  \<open>PObj\<close> stands for any other object a Spark row can hold (a date, a timestamp, ...),
  named by its rendering.
  \<open>PStrOf v\<close> is the string \<^verbatim>\<open>str(v)\<close> for a float or an object \<open>v\<close>: the digits Python
  prints for it are not modelled, the value they print is kept.
\<close>

datatype pyval =
    PNone
  | PBool bool
  | PInt int
  | PFloat rat
  | PDecimal rat
  | PStr string
  | PObj string
  | PStrOf pyval
  | PList "pyval list"
  | PDict "(string \<times> pyval) list"

datatype exc_class =
    ValueError | TypeError | ZeroDivisionError | RuntimeError | AnalysisException | PyException

datatype exn = Exn exc_class string

fun exc_class_of :: "exn \<Rightarrow> exc_class" where
  "exc_class_of (Exn c m) = c"

text \<open>\<^verbatim>\<open>str(e)\<close> of an exception built from one message.\<close>

fun str_exn :: "exn \<Rightarrow> string" where
  "str_exn (Exn c m) = m"

subsection \<open>Decimal rendering of integers\<close>

definition digit_char :: "nat \<Rightarrow> char" where
  "digit_char d = ''0123456789'' ! d"

fun str_nat :: "nat \<Rightarrow> string" where
  "str_nat n = (if n < 10 then [digit_char n] else str_nat (n div 10) @ [digit_char (n mod 10)])"

declare str_nat.simps [simp del]

definition str_int :: "int \<Rightarrow> string" where
  "str_int i = (if i < 0 then CHR ''-'' # str_nat (nat (- i)) else str_nat (nat i))"

text \<open>\<^verbatim>\<open>str(v)\<close>, as a Python value.\<close>

fun py_str :: "pyval \<Rightarrow> pyval" where
  "py_str (PStr s) = PStr s"
| "py_str PNone = PStr ''None''"
| "py_str (PBool b) = PStr (if b then ''True'' else ''False'')"
| "py_str (PInt i) = PStr (str_int i)"
| "py_str v = PStrOf v"

text \<open>\<^verbatim>\<open>sep.join(xs)\<close>.\<close>

fun join_str :: "string \<Rightarrow> string list \<Rightarrow> string" where
  "join_str sep [] = []"
| "join_str sep [x] = x"
| "join_str sep (x # y # ys) = x @ sep @ join_str sep (y # ys)"

subsection \<open>Double-precision arithmetic\<close>

text \<open>
  Python's \<^verbatim>\<open>/\<close> on two ints, \<^verbatim>\<open>/\<close> and \<^verbatim>\<open>*\<close> on floats and the conversion of an int
  to a float all return the double nearest to the exact result, ties going to the even
  significand. \<open>fl\<close> is that rounding on the rationals: 53 significant bits. The exponent
  range of a double is not modelled: every quantity computed here is a quotient or a
  product of row counts, which Spark returns as 64-bit integers.
\<close>

fun bitlen :: "nat \<Rightarrow> nat" where
  "bitlen n = (if n = 0 then 0 else Suc (bitlen (n div 2)))"

declare bitlen.simps [simp del]

definition pow2 :: "int \<Rightarrow> rat" where
  "pow2 e = (if 0 \<le> e then 2 ^ nat e else 1 / 2 ^ nat (- e))"

text \<open>For \<open>0 < x\<close>, the \<open>e\<close> with \<open>2 ^ e \<le> x < 2 ^ (e + 1)\<close>.\<close>

definition binary_exponent :: "rat \<Rightarrow> int" where
  "binary_exponent x =
     (if 1 \<le> x then int (bitlen (nat \<lfloor>x\<rfloor>)) - 1
      else - int (bitlen (nat (\<lceil>1 / x\<rceil> - 1))))"

definition round_half_even :: "rat \<Rightarrow> int" where
  "round_half_even m =
     (let f = \<lfloor>m\<rfloor>; d = m - of_int f
      in if d < 1 / 2 then f
         else if 1 / 2 < d then f + 1
         else if even f then f else f + 1)"

definition fl :: "rat \<Rightarrow> rat" where
  "fl x =
     (if x = 0 then 0
      else let u = pow2 (binary_exponent \<bar>x\<bar> - 52)
           in sgn x * of_int (round_half_even (\<bar>x\<bar> / u)) * u)"

text \<open>\<^verbatim>\<open>a / b\<close> on two ints: the exact quotient, rounded once.\<close>

definition int_truediv :: "int \<Rightarrow> int \<Rightarrow> exn + rat" where
  "int_truediv a b =
     (if b = 0 then Inl (Exn ZeroDivisionError ''division by zero'')
      else Inr (fl (of_int a / of_int b)))"

text \<open>\<^verbatim>\<open>a / y\<close> on an int and a float: the int is converted first.\<close>

definition int_float_truediv :: "int \<Rightarrow> rat \<Rightarrow> exn + rat" where
  "int_float_truediv a y =
     (if y = 0 then Inl (Exn ZeroDivisionError ''float division by zero'')
      else Inr (fl (fl (of_int a) / y)))"

text \<open>\<^verbatim>\<open>x * k\<close> on a float and an int.\<close>

definition float_int_mul :: "rat \<Rightarrow> int \<Rightarrow> rat" where
  "float_int_mul x k = fl (x * fl (of_int k))"

text \<open>\<^verbatim>\<open>int(x)\<close> on a float truncates towards zero.\<close>

definition py_int :: "rat \<Rightarrow> int" where
  "py_int x = (if 0 \<le> x then \<lfloor>x\<rfloor> else \<lceil>x\<rceil>)"

text \<open>
  \<^verbatim>\<open>float(v)\<close>. What Python's parser makes of a string is a parameter: \<open>None\<close> where it
  raises \<^verbatim>\<open>ValueError\<close>.
\<close>

fun py_float :: "(string \<Rightarrow> rat option) \<Rightarrow> pyval \<Rightarrow> exn + rat" where
  "py_float parse (PFloat x) = Inr x"
| "py_float parse (PInt i) = Inr (fl (of_int i))"
| "py_float parse (PBool b) = Inr (if b then 1 else 0)"
| "py_float parse (PDecimal x) = Inr (fl x)"
| "py_float parse (PStr s) =
     (case parse s of
        None \<Rightarrow> Inl (Exn ValueError (''could not convert string to float: '' @ s))
      | Some x \<Rightarrow> Inr x)"
| "py_float parse v = Inl (Exn TypeError ''float() argument must be a string or a real number'')"

text \<open>Truthiness and \<^verbatim>\<open>dict.get\<close>, as far as \<^verbatim>\<open>lud_density\<close> uses them.\<close>

fun truthy :: "pyval \<Rightarrow> bool" where
  "truthy PNone = False"
| "truthy (PBool b) = b"
| "truthy (PInt i) = (i \<noteq> 0)"
| "truthy (PFloat x) = (x \<noteq> 0)"
| "truthy (PDecimal x) = (x \<noteq> 0)"
| "truthy (PStr s) = (s \<noteq> [])"
| "truthy (PObj s) = True"
| "truthy (PStrOf v) = True"
| "truthy (PList xs) = (xs \<noteq> [])"
| "truthy (PDict d) = (d \<noteq> [])"

fun py_get :: "pyval \<Rightarrow> string \<Rightarrow> pyval \<Rightarrow> pyval" where
  "py_get (PDict d) k dflt = (case map_of d k of None \<Rightarrow> dflt | Some v \<Rightarrow> v)"
| "py_get v k dflt = dflt"

section \<open>The Spark session and its DataFrames\<close>

text \<open>
  A DataFrame is its list of column names and its rows; a row gives the cell under each
  column name. The queries the checker sends are the constructors of \<open>query\<close>. Spark can
  fail on any of them: \<open>df_fails\<close> says on which and how, and an unchanged snapshot
  answers a repeated query the same way. \<open>df_stats\<close> is Spark's \<^verbatim>\<open>max\<close>, \<^verbatim>\<open>min\<close> and
  \<^verbatim>\<open>avg\<close> over a column, and \<open>df_leq\<close> its ordering of the values of a column; both
  belong to the engine and are taken as given. Grouped rows have no order of their own:
  which of several rows \<^verbatim>\<open>first()\<close> returns is Spark's choice, \<open>df_first\<close>, and can
  change from one run to the next. Column names are resolved by equality.
\<close>

type_synonym row = "string \<Rightarrow> pyval"

datatype query =
    QCount
  | QDuplicates "string list"
  | QNullCount string
  | QSelectStats string
  | QGroupAgg string
  | QGroupFirst string pyval
  | QGroupOrdered string

record dataframe =
  df_columns :: "string list"
  df_rows :: "row list"
  df_stats :: "string \<Rightarrow> pyval \<times> pyval \<times> pyval"
  df_leq :: "pyval \<Rightarrow> pyval \<Rightarrow> bool"
  df_fails :: "query \<Rightarrow> exn option"
  df_first :: "query \<Rightarrow> nat"

definition run_query :: "dataframe \<Rightarrow> query \<Rightarrow> 'a \<Rightarrow> exn + 'a" where
  "run_query df q v = (case df_fails df q of Some e \<Rightarrow> Inl e | None \<Rightarrow> Inr v)"

definition unresolved_column :: "string \<Rightarrow> exn" where
  "unresolved_column c = Exn AnalysisException (''cannot resolve column '' @ c)"

text \<open>The first of \<open>cs\<close> that is not a column of the DataFrame.\<close>

definition first_unresolved :: "dataframe \<Rightarrow> string list \<Rightarrow> string option" where
  "first_unresolved df cs = find (\<lambda>c. c \<notin> set (df_columns df)) cs"

text \<open>\<^verbatim>\<open>df.count()\<close>\<close>

definition df_count :: "dataframe \<Rightarrow> exn + nat" where
  "df_count df = run_query df QCount (length (df_rows df))"

text \<open>\<^verbatim>\<open>groupBy(...).count()\<close>: one pair of key and number of rows for each distinct key.\<close>

definition group_count :: "row list \<Rightarrow> (row \<Rightarrow> 'k) \<Rightarrow> ('k \<times> nat) list" where
  "group_count rs key = (let ks = map key rs in map (\<lambda>k. (k, count_list ks k)) (remdups ks))"

text \<open>\<^verbatim>\<open>df.groupBy(cs).count().where('count > 1').count()\<close>\<close>

definition duplicates_count :: "dataframe \<Rightarrow> string list \<Rightarrow> exn + nat" where
  "duplicates_count df cs =
     (case first_unresolved df cs of
        Some c \<Rightarrow> Inl (unresolved_column c)
      | None \<Rightarrow>
          run_query df (QDuplicates cs)
            (length (filter (\<lambda>(k, n). 1 < n) (group_count (df_rows df) (\<lambda>r. map r cs)))))"

text \<open>\<^verbatim>\<open>df.where(F.col(c).isNull()).count()\<close>\<close>

definition null_count :: "dataframe \<Rightarrow> string \<Rightarrow> exn + nat" where
  "null_count df c =
     (if c \<notin> set (df_columns df) then Inl (unresolved_column c)
      else run_query df (QNullCount c) (length (filter (\<lambda>r. r c = PNone) (df_rows df))))"

text \<open>\<^verbatim>\<open>df.select(F.max(c), F.min(c), F.avg(c)).first()\<close>\<close>

definition select_stats :: "dataframe \<Rightarrow> string \<Rightarrow> exn + pyval \<times> pyval \<times> pyval" where
  "select_stats df c =
     (if c \<notin> set (df_columns df) then Inl (unresolved_column c)
      else run_query df (QSelectStats c) (df_stats df c))"

text \<open>
  \<^verbatim>\<open>df.groupBy(c).count().agg(max, min, avg, count).first()\<close>: the largest, the smallest
  and the average group size and the number of groups; the first three are null when
  there is no group.
\<close>

definition group_stats :: "dataframe \<Rightarrow> string \<Rightarrow> exn + pyval \<times> pyval \<times> pyval \<times> pyval" where
  "group_stats df c =
     (if c \<notin> set (df_columns df) then Inl (unresolved_column c)
      else run_query df (QGroupAgg c)
        (let ns = map snd (group_count (df_rows df) (\<lambda>r. r c))
         in if ns = [] then (PNone, PNone, PNone, PInt 0)
            else (PInt (int (Max (set ns))), PInt (int (Min (set ns))),
                  PFloat (fl (of_nat (sum_list ns) / of_nat (length ns))),
                  PInt (int (length ns)))))"

text \<open>\<^verbatim>\<open>first()\<close> on rows without an order: \<open>None\<close> when there is none, else the one Spark picks.\<close>

definition first_of :: "nat \<Rightarrow> 'a list \<Rightarrow> 'a option" where
  "first_of k xs = (if xs = [] then None else Some (xs ! (k mod length xs)))"

text \<open>\<^verbatim>\<open>value_counts.where(F.col('count') == n).first()\<close>: a row, or \<open>None\<close>.\<close>

definition group_first :: "dataframe \<Rightarrow> string \<Rightarrow> pyval \<Rightarrow> exn + (pyval \<times> nat) option" where
  "group_first df c n =
     (if c \<notin> set (df_columns df) then Inl (unresolved_column c)
      else run_query df (QGroupFirst c n)
        (first_of (df_first df (QGroupFirst c n))
           (filter (\<lambda>(v, m). PInt (int m) = n) (group_count (df_rows df) (\<lambda>r. r c)))))"

text \<open>\<^verbatim>\<open>value_counts.orderBy(F.col(c).desc()).collect()\<close>\<close>

fun insert_desc :: "('a \<Rightarrow> 'a \<Rightarrow> bool) \<Rightarrow> 'a \<times> nat \<Rightarrow> ('a \<times> nat) list \<Rightarrow> ('a \<times> nat) list" where
  "insert_desc le x [] = [x]"
| "insert_desc le x (y # ys) =
     (if le (fst y) (fst x) then x # y # ys else y # insert_desc le x ys)"

definition order_desc :: "('a \<Rightarrow> 'a \<Rightarrow> bool) \<Rightarrow> ('a \<times> nat) list \<Rightarrow> ('a \<times> nat) list" where
  "order_desc le xs = foldr (insert_desc le) xs []"

definition ordered_counts :: "dataframe \<Rightarrow> string \<Rightarrow> exn + (pyval \<times> nat) list" where
  "ordered_counts df c =
     (if c \<notin> set (df_columns df) then Inl (unresolved_column c)
      else run_query df (QGroupOrdered c)
        (order_desc (df_leq df) (group_count (df_rows df) (\<lambda>r. r c))))"

section \<open>The checker\<close>

text \<open>
  The arguments of the constructor. \<^verbatim>\<open>_validate_inputs\<close> inspects the run-time types of
  the first three, so they are Python values here; the two optional ones are typed as
  annotated. A dict keeps its insertion order: it is a list of pairs with distinct keys.
\<close>

datatype partition_value = One string | Many "string list"

record config =
  arg_table_schema :: pyval
  arg_table_name :: pyval
  arg_key_columns :: pyval
  arg_lud_column :: "string option"
  arg_partition :: "(string \<times> partition_value) list option"

text \<open>
  What the module reaches outside itself: the global Spark session (\<^verbatim>\<open>spark.sql\<close>), the
  system clock (\<open>now_isoformat n\<close> is what the \<open>n\<close>-th call of
  \<^verbatim>\<open>datetime.now().isoformat()\<close> returns), Python's parser of floats, and the order in
  which the Python process iterates a set of strings, which changes with its hash seed.
\<close>

record environment =
  spark_sql :: "string \<Rightarrow> exn + dataframe"
  now_isoformat :: "nat \<Rightarrow> string"
  float_of_string :: "string \<Rightarrow> rat option"
  set_order :: "string list \<Rightarrow> string list"

record test_result =
  status :: string
  timestamp :: string
  details :: pyval

record checker =
  table_schema :: string
  table_name :: string
  key_columns :: "string list"
  lud_column :: "string option"
  partition_dict :: "(string \<times> partition_value) list option"
  testing_results :: "(string \<times> test_result) list"
  table_df :: dataframe
  table_columns :: "string list"
  table_count :: nat
  env :: environment
  clock_reads :: nat

subsection \<open>Configuration validation\<close>

fun is_str :: "pyval \<Rightarrow> bool" where
  "is_str (PStr s) = True"
| "is_str v = False"

fun str_of :: "pyval \<Rightarrow> string" where
  "str_of (PStr s) = s"
| "str_of v = []"

definition validate_inputs :: "pyval \<Rightarrow> pyval \<Rightarrow> pyval \<Rightarrow> exn + unit" where
  "validate_inputs ts tn kc =
     (if \<not> list_all is_str [ts, tn]
      then Inl (Exn ValueError ''table_schema and table_name must be strings'')
      else case kc of
             PList xs \<Rightarrow>
               if list_all is_str xs then Inr ()
               else Inl (Exn ValueError ''key_columns must be a list of strings'')
           | _ \<Rightarrow> Inl (Exn ValueError ''key_columns must be a list of strings''))"

subsection \<open>Loading data\<close>

definition build_query ::
  "string \<Rightarrow> string \<Rightarrow> (string \<times> partition_value) list option \<Rightarrow> string" where
  "build_query schema name part =
     (let query = ''SELECT * FROM '' @ schema @ ''.'' @ name
      in case part of
           None \<Rightarrow> query
         | Some [] \<Rightarrow> query
         | Some ((key, Many vs) # rest) \<Rightarrow>
             query @ '' WHERE '' @ key @ '' in ('' @ join_str '','' vs @ '')''
         | Some ((key, One v) # rest) \<Rightarrow>
             query @ '' WHERE '' @ key @ '' in ('' @ v @ '')'')"

definition load_table_data ::
  "environment \<Rightarrow> string \<Rightarrow> string \<Rightarrow> (string \<times> partition_value) list option
     \<Rightarrow> exn + dataframe \<times> string list \<times> nat" where
  "load_table_data ev schema name part =
     (case (case spark_sql ev (build_query schema name part) of
              Inl e \<Rightarrow> Inl e
            | Inr df \<Rightarrow>
                (case df_count df of
                   Inl e \<Rightarrow> Inl e
                 | Inr n \<Rightarrow>
                     if n = 0 then Inl (Exn ValueError ''Table contains no data'')
                     else Inr (df, df_columns df, n))) of
        Inl e \<Rightarrow> Inl (Exn RuntimeError (''Failed to query table: '' @ str_exn e))
      | Inr r \<Rightarrow> Inr r)"

text \<open>\<^verbatim>\<open>SparkDQTesting.__init__\<close>\<close>

definition init :: "environment \<Rightarrow> config \<Rightarrow> exn + checker" where
  "init ev cfg =
     (case validate_inputs (arg_table_schema cfg) (arg_table_name cfg) (arg_key_columns cfg) of
        Inl e \<Rightarrow> Inl e
      | Inr u \<Rightarrow>
          (let schema = str_of (arg_table_schema cfg);
               name = str_of (arg_table_name cfg);
               keys = (case arg_key_columns cfg of PList xs \<Rightarrow> map str_of xs | _ \<Rightarrow> [])
           in case load_table_data ev schema name (arg_partition cfg) of
                Inl e \<Rightarrow> Inl e
              | Inr (df, cols, n) \<Rightarrow>
                  Inr \<lparr>table_schema = schema, table_name = name, key_columns = keys,
                       lud_column = arg_lud_column cfg, partition_dict = arg_partition cfg,
                       testing_results = [], table_df = df, table_columns = cols,
                       table_count = n, env = ev, clock_reads = 0\<rparr>))"

subsection \<open>Results\<close>

definition create_test_result :: "checker \<Rightarrow> string \<Rightarrow> pyval \<Rightarrow> test_result" where
  "create_test_result s st d =
     \<lparr>status = st, timestamp = now_isoformat (env s) (clock_reads s), details = d\<rparr>"

text \<open>\<^verbatim>\<open>self.testing_results[name] = self._create_test_result(st, d)\<close>\<close>

definition set_result :: "string \<Rightarrow> string \<Rightarrow> pyval \<Rightarrow> checker \<Rightarrow> checker" where
  "set_result name st d s =
     s\<lparr>testing_results := AList.update name (create_test_result s st d) (testing_results s),
       clock_reads := Suc (clock_reads s)\<rparr>"

text \<open>
  Every check has the same frame: the \<^verbatim>\<open>try\<close> block computes a status and details and
  stores them; \<^verbatim>\<open>except Exception as e\<close> stores \<^verbatim>\<open>'Error'\<close> and \<^verbatim>\<open>str(e)\<close> instead.
\<close>

definition try_except :: "string \<Rightarrow> exn + string \<times> pyval \<Rightarrow> checker \<Rightarrow> exn + checker" where
  "try_except name body s =
     (case body of
        Inr (st, d) \<Rightarrow> Inr (set_result name st d s)
      | Inl e \<Rightarrow> Inr (set_result name ''Error'' (PStr (str_exn e)) s))"

subsection \<open>find_duplicates\<close>

definition find_duplicates_try :: "checker \<Rightarrow> exn + string \<times> pyval" where
  "find_duplicates_try s =
     (case duplicates_count (table_df s) (key_columns s) of
        Inl e \<Rightarrow> Inl e
      | Inr duplicate_count \<Rightarrow>
          Inr (if duplicate_count = 0 then ''Passed'' else ''Failed'',
               PDict [(''duplicated_rows_count'', PInt (int duplicate_count))]))"

definition find_duplicates :: "checker \<Rightarrow> exn + checker" where
  "find_duplicates s = try_except ''find_duplicates'' (find_duplicates_try s) s"

subsection \<open>find_nulls\<close>

text \<open>The dict comprehension over the key columns, left to right.\<close>

fun null_details_of ::
  "dataframe \<Rightarrow> string list \<Rightarrow> (string \<times> nat) list \<Rightarrow> exn + (string \<times> nat) list" where
  "null_details_of df [] d = Inr d"
| "null_details_of df (c # cs) d =
     (case null_count df c of
        Inl e \<Rightarrow> Inl e
      | Inr n \<Rightarrow> null_details_of df cs (AList.update c n d))"

definition find_nulls_try :: "checker \<Rightarrow> exn + string \<times> pyval" where
  "find_nulls_try s =
     (case null_details_of (table_df s) (key_columns s) [] of
        Inl e \<Rightarrow> Inl e
      | Inr null_details \<Rightarrow>
          (let nulls_sum = sum_list (map snd null_details)
           in Inr (if nulls_sum = 0 then ''Passed'' else ''Failed'',
                   PDict [(''total_null_count'', PInt (int nulls_sum)),
                          (''nulls_by_column'',
                           PDict (map (\<lambda>(c, n). (c, PInt (int n))) null_details))])))"

definition find_nulls :: "checker \<Rightarrow> exn + checker" where
  "find_nulls s = try_except ''find_nulls'' (find_nulls_try s) s"

subsection \<open>check_completeness\<close>

text \<open>
  \<^verbatim>\<open>list(set(self.table_columns) - set(self.key_columns))\<close>: the columns that are no key
  columns, once each, in the order in which the process iterates the set. \<open>set_order\<close>
  gives that order; it is taken when it is an order of the same elements.
\<close>

definition list_of_set :: "(string list \<Rightarrow> string list) \<Rightarrow> string list \<Rightarrow> string list" where
  "list_of_set order xs =
     (let ys = order (remdups xs)
      in if distinct ys \<and> set ys = set xs then ys else remdups xs)"

definition non_key_columns :: "checker \<Rightarrow> string list" where
  "non_key_columns s =
     list_of_set (set_order (env s)) (filter (\<lambda>c. c \<notin> set (key_columns s)) (table_columns s))"

text \<open>\<^verbatim>\<open>(self.table_df.where(F.col(column).isNull()).count() / self.table_count) * 100\<close>\<close>

definition null_percentage :: "dataframe \<Rightarrow> nat \<Rightarrow> string \<Rightarrow> exn + rat" where
  "null_percentage df cnt c =
     (case null_count df c of
        Inl e \<Rightarrow> Inl e
      | Inr n \<Rightarrow>
          (case int_truediv (int n) (int cnt) of
             Inl e \<Rightarrow> Inl e
           | Inr q \<Rightarrow> Inr (float_int_mul q 100)))"

fun completeness_loop ::
  "dataframe \<Rightarrow> nat \<Rightarrow> string list \<Rightarrow> (string \<times> pyval) list \<Rightarrow> string
     \<Rightarrow> exn + (string \<times> pyval) list \<times> string" where
  "completeness_loop df cnt [] null_details st = Inr (null_details, st)"
| "completeness_loop df cnt (c # cs) null_details st =
     (case null_percentage df cnt c of
        Inl e \<Rightarrow> Inl e
      | Inr p \<Rightarrow>
          completeness_loop df cnt cs
            (AList.update c (PStr (str_int (py_int p) @ ''%'')) null_details)
            (if 5 < p then ''Failed'' else st))"

definition check_completeness_try :: "checker \<Rightarrow> exn + string \<times> pyval" where
  "check_completeness_try s =
     (if non_key_columns s = [] then Inr (''Skipped'', PStr ''Every column is a key column'')
      else case completeness_loop (table_df s) (table_count s) (non_key_columns s) [] ''Passed'' of
             Inl e \<Rightarrow> Inl e
           | Inr (null_details, st) \<Rightarrow>
               Inr (st, PDict [(''nulls_percentage_by_column'', PDict null_details)]))"

definition check_completeness :: "checker \<Rightarrow> exn + checker" where
  "check_completeness s = try_except ''check_completeness'' (check_completeness_try s) s"

subsection \<open>values_range\<close>

text \<open>The body of the inner \<^verbatim>\<open>try\<close>: the statistics of one column, kept if its maximum converts to a float.\<close>

definition column_range :: "dataframe \<Rightarrow> (string \<Rightarrow> rat option) \<Rightarrow> string \<Rightarrow> exn + pyval" where
  "column_range df parse c =
     (case select_stats df c of
        Inl e \<Rightarrow> Inl e
      | Inr (mx, mn, av) \<Rightarrow>
          (case py_float parse mx of
             Inl e \<Rightarrow> Inl e
           | Inr x \<Rightarrow>
               Inr (PDict [(''max'', py_str mx), (''min'', py_str mn), (''avg'', py_str av)])))"

text \<open>\<^verbatim>\<open>except (ValueError, TypeError): continue\<close>\<close>

definition value_or_type_error :: "exn \<Rightarrow> bool" where
  "value_or_type_error e = (exc_class_of e = ValueError \<or> exc_class_of e = TypeError)"

fun values_range_loop ::
  "dataframe \<Rightarrow> (string \<Rightarrow> rat option) \<Rightarrow> string list \<Rightarrow> (string \<times> pyval) list
     \<Rightarrow> exn + (string \<times> pyval) list" where
  "values_range_loop df parse [] range_details = Inr range_details"
| "values_range_loop df parse (c # cs) range_details =
     (case column_range df parse c of
        Inl e \<Rightarrow>
          if value_or_type_error e then values_range_loop df parse cs range_details
          else Inl e
      | Inr entry \<Rightarrow> values_range_loop df parse cs (AList.update c entry range_details))"

definition values_range_try :: "checker \<Rightarrow> exn + string \<times> pyval" where
  "values_range_try s =
     (case values_range_loop (table_df s) (float_of_string (env s)) (non_key_columns s) [] of
        Inl e \<Rightarrow> Inl e
      | Inr range_details \<Rightarrow>
          Inr (''Passed'', PDict [(''values_range_details'', PDict range_details)]))"

definition values_range :: "checker \<Rightarrow> exn + checker" where
  "values_range s = try_except ''values_range'' (values_range_try s) s"

subsection \<open>key_density\<close>

text \<open>\<^verbatim>\<open>str(row[column]) if row else None\<close>\<close>

fun value_str :: "(pyval \<times> nat) option \<Rightarrow> pyval" where
  "value_str None = PNone"
| "value_str (Some (v, n)) = py_str v"

definition key_density_column :: "dataframe \<Rightarrow> string \<Rightarrow> exn + pyval" where
  "key_density_column df c =
     (case group_stats df c of
        Inl e \<Rightarrow> Inl e
      | Inr (max_count, min_count, avg_count, distinct_values) \<Rightarrow>
          (case group_first df c max_count of
             Inl e \<Rightarrow> Inl e
           | Inr max_value \<Rightarrow>
               (case group_first df c min_count of
                  Inl e \<Rightarrow> Inl e
                | Inr min_value \<Rightarrow>
                    (case df_count df of
                       Inl e \<Rightarrow> Inl e
                     | Inr total_records \<Rightarrow>
                         Inr (PDict
                           [(''max_count'',
                             PDict [(''value'', value_str max_value),
                                    (''count'', py_str max_count)]),
                            (''min_count'',
                             PDict [(''value'', value_str min_value),
                                    (''count'', py_str min_count)]),
                            (''avg_count'', py_str avg_count),
                            (''distinct_values'', py_str distinct_values),
                            (''total_records'', py_str (PInt (int total_records)))])))))"

fun key_density_loop ::
  "dataframe \<Rightarrow> string list \<Rightarrow> (string \<times> pyval) list \<Rightarrow> exn + (string \<times> pyval) list" where
  "key_density_loop df [] key_density = Inr key_density"
| "key_density_loop df (c # cs) key_density =
     (case key_density_column df c of
        Inl e \<Rightarrow> Inl e
      | Inr entry \<Rightarrow> key_density_loop df cs (AList.update c entry key_density))"

definition key_density_try :: "checker \<Rightarrow> exn + string \<times> pyval" where
  "key_density_try s =
     (case key_density_loop (table_df s) (key_columns s) [] of
        Inl e \<Rightarrow> Inl e
      | Inr key_density \<Rightarrow>
          Inr (''Passed'', PDict [(''key_density_details'', PDict key_density)]))"

definition key_density :: "checker \<Rightarrow> exn + checker" where
  "key_density s = try_except ''key_density'' (key_density_try s) s"

subsection \<open>lud_density\<close>

text \<open>\<^verbatim>\<open>[row['count'] for row in ordered_counts[1:7]]\<close>\<close>

definition last_luds :: "(pyval \<times> nat) list \<Rightarrow> nat list" where
  "last_luds oc = map snd (take 6 (drop 1 oc))"

text \<open>\<^verbatim>\<open>sum(last_luds) / len(last_luds)\<close>\<close>

definition last_luds_avg :: "(pyval \<times> nat) list \<Rightarrow> exn + rat" where
  "last_luds_avg oc = int_truediv (int (sum_list (last_luds oc))) (int (length (last_luds oc)))"

text \<open>\<^verbatim>\<open>ordered_counts[0]['count']\<close>\<close>

definition current_count :: "(pyval \<times> nat) list \<Rightarrow> nat" where
  "current_count oc = snd (oc ! 0)"

text \<open>\<^verbatim>\<open>current_count / last_luds_avg if last_luds_avg > 0 else 0\<close>: a float, or the int 0.\<close>

definition ratio_to_average :: "nat \<Rightarrow> rat \<Rightarrow> exn + pyval" where
  "ratio_to_average cur av =
     (if 0 < av
      then (case int_float_truediv (int cur) av of Inl e \<Rightarrow> Inl e | Inr r \<Rightarrow> Inr (PFloat r))
      else Inr (PInt 0))"

text \<open>\<^verbatim>\<open>ratio < 0.4\<close>, the literal being the double nearest to 2/5.\<close>

fun below_acceptable :: "pyval \<Rightarrow> bool" where
  "below_acceptable (PFloat r) = (r < fl (2 / 5))"
| "below_acceptable (PInt i) = (of_int i < fl (2 / 5))"
| "below_acceptable v = False"

definition moving_average :: "(pyval \<times> nat) list \<Rightarrow> exn + pyval" where
  "moving_average oc =
     (if 7 \<le> length oc
      then (case last_luds_avg oc of
              Inl e \<Rightarrow> Inl e
            | Inr av \<Rightarrow>
                (case ratio_to_average (current_count oc) av of
                   Inl e \<Rightarrow> Inl e
                 | Inr ratio \<Rightarrow>
                     Inr (PDict
                       [(''last_luds_avg'', py_str (PFloat av)),
                        (''current_count'', py_str (PInt (int (current_count oc)))),
                        (''ratio_to_average'', py_str ratio),
                        (''below_acceptable_average'', PBool (below_acceptable ratio)),
                        (''dates_analyzed'',
                         PDict [(''current_date'', py_str (fst (oc ! 0))),
                                (''analyzed_dates'',
                                 PList (map (\<lambda>row. py_str (fst row)) (take 6 (drop 1 oc))))])])))
      else Inr (PDict [(''error'', PStr ''Insufficient data for moving average calculation'')]))"

text \<open>
  \<^verbatim>\<open>'Failed' if lud_density_details.get('moving_average', {}).get('below_acceptable_average', True) else 'Passed'\<close>
\<close>

definition lud_status :: "pyval \<Rightarrow> string" where
  "lud_status lud_density_details =
     (if truthy (py_get (py_get lud_density_details ''moving_average'' (PDict []))
                   ''below_acceptable_average'' (PBool True))
      then ''Failed'' else ''Passed'')"

definition lud_density_details :: "dataframe \<Rightarrow> (string \<Rightarrow> rat option) \<Rightarrow> string \<Rightarrow> exn + pyval" where
  "lud_density_details df parse c =
     (case group_stats df c of
        Inl e \<Rightarrow> Inl e
      | Inr (max_count, min_count, avg_count, distinct_values) \<Rightarrow>
          (case group_first df c max_count of
             Inl e \<Rightarrow> Inl e
           | Inr max_value \<Rightarrow>
               (case group_first df c min_count of
                  Inl e \<Rightarrow> Inl e
                | Inr min_value \<Rightarrow>
                    (case py_float parse avg_count of
                       Inl e \<Rightarrow> Inl e
                     | Inr av \<Rightarrow>
                         (case ordered_counts df c of
                            Inl e \<Rightarrow> Inl e
                          | Inr oc \<Rightarrow>
                              (case moving_average oc of
                                 Inl e \<Rightarrow> Inl e
                               | Inr ma \<Rightarrow>
                                   Inr (PDict
                                     [(''max_count'',
                                       PDict [(''value'', value_str max_value),
                                              (''count'', py_str max_count)]),
                                      (''min_count'',
                                       PDict [(''value'', value_str min_value),
                                              (''count'', py_str min_count)]),
                                      (''avg_count'', py_str (PFloat av)),
                                      (''distinct_values'', py_str distinct_values),
                                      (''moving_average'', ma)])))))))"

definition lud_density_try :: "checker \<Rightarrow> string \<Rightarrow> exn + string \<times> pyval" where
  "lud_density_try s c =
     (case lud_density_details (table_df s) (float_of_string (env s)) c of
        Inl e \<Rightarrow> Inl e
      | Inr d \<Rightarrow> Inr (lud_status d, d))"

text \<open>\<^verbatim>\<open>if not self.lud_column: return\<close> stands before the \<^verbatim>\<open>try\<close>.\<close>

definition lud_density :: "checker \<Rightarrow> exn + checker" where
  "lud_density s =
     (case lud_column s of
        None \<Rightarrow> Inr s
      | Some c \<Rightarrow>
          if c = [] then Inr s
          else try_except ''lud_density'' (lud_density_try s c) s)"

subsection \<open>run_all_tests and main\<close>

definition test_methods :: "(string \<times> (checker \<Rightarrow> exn + checker)) list" where
  "test_methods =
     [(''find_duplicates'', find_duplicates),
      (''find_nulls'', find_nulls),
      (''check_completeness'', check_completeness),
      (''values_range'', values_range),
      (''key_density'', key_density),
      (''lud_density'', lud_density)]"

text \<open>The loop over \<^verbatim>\<open>test_methods\<close>: an exception that left a method would end it.\<close>

fun run_tests :: "(string \<times> (checker \<Rightarrow> exn + checker)) list \<Rightarrow> checker \<Rightarrow> exn + checker" where
  "run_tests [] s = Inr s"
| "run_tests ((test_name, test_method) # ms) s =
     (case test_method s of
        Inl e \<Rightarrow> Inl e
      | Inr s' \<Rightarrow> run_tests ms s')"

text \<open>The checker after the run, and the report it returns: \<^verbatim>\<open>self.testing_results\<close>.\<close>

definition run_all_tests :: "checker \<Rightarrow> exn + checker \<times> (string \<times> test_result) list" where
  "run_all_tests s =
     (case run_tests test_methods s of
        Inl e \<Rightarrow> Inl e
      | Inr s' \<Rightarrow> Inr (s', testing_results s'))"

text \<open>
  \<^verbatim>\<open>main\<close>, with the configuration it builds taken as an argument: the report it prints,
  or the exception it raises.
\<close>

definition main :: "environment \<Rightarrow> config \<Rightarrow> exn + (string \<times> test_result) list" where
  "main ev cfg =
     (case (case init ev cfg of
              Inl e \<Rightarrow> Inl e
            | Inr unit_tests \<Rightarrow>
                (case run_all_tests unit_tests of
                   Inl e \<Rightarrow> Inl e
                 | Inr (s', results) \<Rightarrow> Inr results)) of
        Inl e \<Rightarrow>
          Inl (Exn PyException
                 (''An error occurred while executing the DQ tests: '' @ str_exn e))
      | Inr results \<Rightarrow> Inr results)"

section \<open>Reading a report\<close>

text \<open>
  What a \<^verbatim>\<open>try\<close> block leaves in the report: its own status and details, or \<^verbatim>\<open>'Error'\<close>
  and the message of the exception. \<open>entry\<close> reads the status and the details stored
  under a name, \<open>summary\<close> is the report without its timestamps.
\<close>

definition outcome :: "exn + string \<times> pyval \<Rightarrow> string \<times> pyval" where
  "outcome body = (case body of Inr r \<Rightarrow> r | Inl e \<Rightarrow> (''Error'', PStr (str_exn e)))"

definition entry :: "(string \<times> test_result) list \<Rightarrow> string \<Rightarrow> (string \<times> pyval) option" where
  "entry report name = map_option (\<lambda>r. (status r, details r)) (map_of report name)"

definition summary :: "(string \<times> test_result) list \<Rightarrow> (string \<times> string \<times> pyval) list" where
  "summary report = map (\<lambda>(name, r). (name, status r, details r)) report"

text \<open>The checker after one check, after the five unconditional checks, and after \<^verbatim>\<open>lud_density\<close>.\<close>

definition store :: "string \<Rightarrow> exn + string \<times> pyval \<Rightarrow> checker \<Rightarrow> checker" where
  "store name body s = set_result name (fst (outcome body)) (snd (outcome body)) s"

definition after_five :: "checker \<Rightarrow> checker" where
  "after_five s =
     store ''key_density'' (key_density_try s)
       (store ''values_range'' (values_range_try s)
         (store ''check_completeness'' (check_completeness_try s)
           (store ''find_nulls'' (find_nulls_try s)
             (store ''find_duplicates'' (find_duplicates_try s) s))))"

definition after_lud :: "checker \<Rightarrow> checker" where
  "after_lud s =
     (case lud_column s of
        None \<Rightarrow> s
      | Some c \<Rightarrow> if c = [] then s else store ''lud_density'' (lud_density_try s c) s)"

section \<open>What the claims speak of\<close>

text \<open>
  The number of rows that carry a given combination of values in the key columns, and the
  combinations carried by more than one row.
\<close>

definition rows_with_key :: "dataframe \<Rightarrow> string list \<Rightarrow> pyval list \<Rightarrow> nat" where
  "rows_with_key df cs k = length (filter (\<lambda>r. map r cs = k) (df_rows df))"

definition duplicated_keys :: "dataframe \<Rightarrow> string list \<Rightarrow> pyval list set" where
  "duplicated_keys df cs = {k. 1 < rows_with_key df cs k}"

text \<open>
  The number of rows that are null in a column, and the condition that the null counts
  of some columns can be asked for: the columns exist and Spark answers.
\<close>

definition nulls_in :: "dataframe \<Rightarrow> string \<Rightarrow> nat" where
  "nulls_in df c = length (filter (\<lambda>r. r c = PNone) (df_rows df))"

definition null_queries_answered :: "dataframe \<Rightarrow> string list \<Rightarrow> bool" where
  "null_queries_answered df cs =
     (\<forall>c \<in> set cs. c \<in> set (df_columns df) \<and> df_fails df (QNullCount c) = None)"

text \<open>
  The configuration passes \<^verbatim>\<open>_validate_inputs\<close>; the query the constructor sends for it.
\<close>

definition valid_types :: "config \<Rightarrow> bool" where
  "valid_types cfg =
     (is_str (arg_table_schema cfg) \<and> is_str (arg_table_name cfg) \<and>
      (\<exists>xs. arg_key_columns cfg = PList xs \<and> list_all is_str xs))"

definition load_query :: "config \<Rightarrow> string" where
  "load_query cfg =
     build_query (str_of (arg_table_schema cfg)) (str_of (arg_table_name cfg)) (arg_partition cfg)"

section \<open>Example data\<close>

text \<open>
  A table of seven orders with key columns \<^verbatim>\<open>id\<close> and \<^verbatim>\<open>region\<close>: three rows share
  one key, one row is null in \<^verbatim>\<open>region\<close>, one in both key columns, one in \<^verbatim>\<open>amount\<close>;
  every row has its own \<^verbatim>\<open>day\<close>.
\<close>

definition order_row :: "pyval \<Rightarrow> pyval \<Rightarrow> pyval \<Rightarrow> pyval \<Rightarrow> row" where
  "order_row i r d a = (\<lambda>c. PNone)(''id'' := i, ''region'' := r, ''day'' := d, ''amount'' := a)"

definition orders_rows :: "row list" where
  "orders_rows =
     [order_row (PInt 1) (PStr ''north'') (PInt 1) (PInt 10),
      order_row (PInt 1) (PStr ''north'') (PInt 2) PNone,
      order_row (PInt 1) (PStr ''north'') (PInt 3) (PInt 6),
      order_row (PInt 2) PNone (PInt 4) (PInt 7),
      order_row PNone PNone (PInt 5) (PInt 8),
      order_row (PInt 3) (PStr ''south'') (PInt 6) (PInt 9),
      order_row (PInt 4) (PStr ''south'') (PInt 7) (PInt 2)]"

fun int_leq :: "pyval \<Rightarrow> pyval \<Rightarrow> bool" where
  "int_leq (PInt a) (PInt b) = (a \<le> b)"
| "int_leq v w = False"

definition orders_stats :: "string \<Rightarrow> pyval \<times> pyval \<times> pyval" where
  "orders_stats c =
     (if c = ''day'' then (PInt 7, PInt 1, PFloat 4)
      else if c = ''amount'' then (PInt 10, PInt 2, PFloat 7)
      else (PNone, PNone, PNone))"

definition orders_df :: dataframe where
  "orders_df =
     \<lparr>df_columns = [''id'', ''region'', ''day'', ''amount''], df_rows = orders_rows,
      df_stats = orders_stats, df_leq = int_leq, df_fails = (\<lambda>q. None),
      df_first = (\<lambda>q. 0)\<rparr>"

definition example_env :: environment where
  "example_env =
     \<lparr>spark_sql = (\<lambda>q. if q = ''SELECT * FROM shop.orders'' then Inr orders_df
                        else Inl (Exn AnalysisException ''Table or view not found'')),
      now_isoformat = (\<lambda>n. ''2024-05-01T12:00:0'' @ [digit_char n]),
      float_of_string = (\<lambda>s. None), set_order = (\<lambda>xs. xs)\<rparr>"

definition example_config :: config where
  "example_config =
     \<lparr>arg_table_schema = PStr ''shop'', arg_table_name = PStr ''orders'',
      arg_key_columns = PList [PStr ''id'', PStr ''region''],
      arg_lud_column = Some ''day'', arg_partition = None\<rparr>"

definition orders_checker :: checker where
  "orders_checker =
     \<lparr>table_schema = ''shop'', table_name = ''orders'', key_columns = [''id'', ''region''],
      lud_column = Some ''day'', partition_dict = None, testing_results = [],
      table_df = orders_df, table_columns = [''id'', ''region'', ''day'', ''amount''],
      table_count = 7, env = example_env, clock_reads = 0\<rparr>"

definition faulty_checker :: checker where
  "faulty_checker =
     orders_checker\<lparr>table_df :=
       orders_df\<lparr>df_fails :=
         (\<lambda>q. if q = QNullCount ''region'' then Some (Exn PyException ''Job aborted'')
              else None)\<rparr>\<rparr>"

text \<open>
  A value that \<^verbatim>\<open>float\<close> accepts, and a column that \<^verbatim>\<open>values_range\<close> keeps: its
  statistics arrive and its maximum is such a value.
\<close>

definition is_number :: "(string \<Rightarrow> rat option) \<Rightarrow> pyval \<Rightarrow> bool" where
  "is_number parse v = (case py_float parse v of Inl e \<Rightarrow> False | Inr x \<Rightarrow> True)"

definition range_kept :: "dataframe \<Rightarrow> (string \<Rightarrow> rat option) \<Rightarrow> string \<Rightarrow> bool" where
  "range_kept df parse c =
     (case select_stats df c of
        Inl e \<Rightarrow> False
      | Inr (mx, mn, av) \<Rightarrow> is_number parse mx)"

text \<open>The table \<open>sparse_df\<close> has 100 rows, 29 of them null in \<^verbatim>\<open>x\<close>.\<close>

definition sparse_df :: dataframe where
  "sparse_df =
     \<lparr>df_columns = [''k'', ''x''],
      df_rows = replicate 71 ((\<lambda>c. PNone)(''k'' := PInt 1, ''x'' := PInt 1)) @
                replicate 29 ((\<lambda>c. PNone)(''k'' := PInt 2)),
      df_stats = (\<lambda>c. (PInt 1, PInt 1, PFloat 1)), df_leq = int_leq,
      df_fails = (\<lambda>q. None), df_first = (\<lambda>q. 0)\<rparr>"

definition sparse_checker :: checker where
  "sparse_checker =
     \<lparr>table_schema = ''shop'', table_name = ''sparse'', key_columns = [''k''],
      lud_column = None, partition_dict = None, testing_results = [],
      table_df = sparse_df, table_columns = [''k'', ''x''],
      table_count = 100, env = example_env, clock_reads = 0\<rparr>"

text \<open>
  For \<^verbatim>\<open>lud_density\<close>: Spark answers the queries on the time column; the values the
  column takes; Spark's ordering is a total preorder on them; and the ratio of the
  current count to the average, 0 when the average is not positive, in double precision.
\<close>

definition lud_answered :: "dataframe \<Rightarrow> string \<Rightarrow> bool" where
  "lud_answered df c =
     (c \<in> set (df_columns df) \<and> df_fails df (QGroupAgg c) = None \<and>
      (\<forall>n. df_fails df (QGroupFirst c n) = None) \<and> df_fails df (QGroupOrdered c) = None)"

definition column_values :: "dataframe \<Rightarrow> string \<Rightarrow> pyval set" where
  "column_values df c = (\<lambda>r. r c) ` set (df_rows df)"

definition leq_linear :: "dataframe \<Rightarrow> string \<Rightarrow> bool" where
  "leq_linear df c =
     ((\<forall>a \<in> column_values df c. \<forall>b \<in> column_values df c. df_leq df a b \<or> df_leq df b a) \<and>
      (\<forall>a \<in> column_values df c. \<forall>b \<in> column_values df c. \<forall>d \<in> column_values df c.
         df_leq df a b \<and> df_leq df b d \<longrightarrow> df_leq df a d))"

definition ratio_value :: "nat \<Rightarrow> rat \<Rightarrow> rat" where
  "ratio_value cur av = (if 0 < av then fl (fl (of_nat cur) / av) else 0)"

text \<open>
  The average of the counts at positions 2 to 7 of the ordered groups, as
  \<^verbatim>\<open>sum(last_luds) / len(last_luds)\<close> computes it.
\<close>

definition prior_avg :: "(pyval \<times> nat) list \<Rightarrow> rat" where
  "prior_avg oc = fl (of_nat (sum_list (map snd (take 6 (drop 1 oc)))) / 6)"

text \<open>
  The percentage of nulls as the specification words it, \<open>(null count / total row count) \<times> 100\<close>,
  in exact arithmetic.
\<close>

definition exact_percentage :: "nat \<Rightarrow> nat \<Rightarrow> rat" where
  "exact_percentage n cnt = of_nat n / of_nat cnt * 100"

text \<open>
  The table of orders with one more column, \<^verbatim>\<open>shipped\<close>, of type DATE. Spark computes
  \<^verbatim>\<open>max\<close> and \<^verbatim>\<open>min\<close> of a date column but refuses \<^verbatim>\<open>avg\<close> over it when it analyses
  the query: \<^verbatim>\<open>select(F.max(c), F.min(c), F.avg(c))\<close> raises an \<^verbatim>\<open>AnalysisException\<close> for
  a data type mismatch.
\<close>

definition shipped_df :: dataframe where
  "shipped_df =
     orders_df\<lparr>df_columns := [''id'', ''region'', ''day'', ''amount'', ''shipped''],
       df_rows := map (\<lambda>r. r(''shipped'' := PObj ''datetime.date(2024, 5, 1)'')) orders_rows,
       df_stats :=
         (\<lambda>c. if c = ''shipped''
              then (PObj ''datetime.date(2024, 5, 1)'', PObj ''datetime.date(2024, 5, 1)'', PNone)
              else orders_stats c),
       df_fails :=
         (\<lambda>q. if q = QSelectStats ''shipped''
              then Some (Exn AnalysisException
                     ''cannot resolve avg(shipped) due to data type mismatch'')
              else None)\<rparr>"

definition shipped_checker :: checker where
  "shipped_checker =
     orders_checker\<lparr>table_df := shipped_df,
       table_columns := [''id'', ''region'', ''day'', ''amount'', ''shipped'']\<rparr>"








section \<open>Properties\<close>

subsection \<open>The frame of a check\<close>

lemma try_except_outcome:
  "try_except name body s = Inr (set_result name (fst (outcome body)) (snd (outcome body)) s)"
  by (simp add: try_except_def outcome_def split: sum.splits prod.splits)

lemma entry_set_result:
  "entry (testing_results (set_result name st d s)) m =
     (if m = name then Some (st, d) else entry (testing_results s) m)"
  by (simp add: entry_def set_result_def create_test_result_def update_conv)

lemma frame_set_result [simp]:
  "find_duplicates_try (set_result n st d s) = find_duplicates_try s"
  "find_nulls_try (set_result n st d s) = find_nulls_try s"
  "check_completeness_try (set_result n st d s) = check_completeness_try s"
  "values_range_try (set_result n st d s) = values_range_try s"
  "key_density_try (set_result n st d s) = key_density_try s"
  "lud_density_try (set_result n st d s) c = lud_density_try s c"
  "lud_column (set_result n st d s) = lud_column s"
  by (simp_all add: set_result_def find_duplicates_try_def find_nulls_try_def
      check_completeness_try_def values_range_try_def key_density_try_def lud_density_try_def
      non_key_columns_def)

lemma lud_density_after: "lud_density s = Inr (after_lud s)"
  by (simp add: lud_density_def after_lud_def store_def try_except_outcome split: option.splits)

lemma run_tests_after:
  "run_tests test_methods s = Inr (after_lud (after_five s))"
  by (simp add: test_methods_def find_duplicates_def find_nulls_def check_completeness_def
      values_range_def key_density_def try_except_outcome after_five_def store_def
      lud_density_after)

lemma run_all_tests_after:
  "run_all_tests s = Inr (after_lud (after_five s), testing_results (after_lud (after_five s)))"
  by (simp add: run_all_tests_def run_tests_after)

lemma frame_store [simp]:
  "find_duplicates_try (store n b s) = find_duplicates_try s"
  "find_nulls_try (store n b s) = find_nulls_try s"
  "check_completeness_try (store n b s) = check_completeness_try s"
  "values_range_try (store n b s) = values_range_try s"
  "key_density_try (store n b s) = key_density_try s"
  "lud_density_try (store n b s) c = lud_density_try s c"
  "lud_column (store n b s) = lud_column s"
  by (simp_all add: store_def)

lemma entry_store:
  "entry (testing_results (store name body s)) m =
     (if m = name then Some (outcome body) else entry (testing_results s) m)"
  by (simp add: store_def entry_set_result)

lemma lud_column_after_five [simp]: "lud_column (after_five s) = lud_column s"
  by (simp add: after_five_def)

lemma lud_try_after_five [simp]: "lud_density_try (after_five s) c = lud_density_try s c"
  by (simp add: after_five_def)

lemma entry_after_five:
  "entry (testing_results (after_five s)) m =
     (if m = ''key_density'' then Some (outcome (key_density_try s))
      else if m = ''values_range'' then Some (outcome (values_range_try s))
      else if m = ''check_completeness'' then Some (outcome (check_completeness_try s))
      else if m = ''find_nulls'' then Some (outcome (find_nulls_try s))
      else if m = ''find_duplicates'' then Some (outcome (find_duplicates_try s))
      else entry (testing_results s) m)"
  by (simp add: after_five_def entry_store)

lemma entry_after_lud:
  "entry (testing_results (after_lud s)) m =
     (case lud_column s of
        None \<Rightarrow> entry (testing_results s) m
      | Some c \<Rightarrow>
          if c \<noteq> [] \<and> m = ''lud_density'' then Some (outcome (lud_density_try s c))
          else entry (testing_results s) m)"
  by (simp add: after_lud_def entry_store split: option.splits)

lemma outcome_Inl: "outcome (Inl e) = (''Error'', PStr (str_exn e))"
  by (simp add: outcome_def)

lemma outcome_Inr: "outcome (Inr r) = r"
  by (simp add: outcome_def)

subsection \<open>C1: an exception inside a check stays inside it\<close>

text \<open>
  Claim C1. \<^verbatim>\<open>run_all_tests\<close> always returns a report: no exception of a check reaches
  its caller. For each of the six checks, if its \<^verbatim>\<open>try\<close> block raises \<open>e\<close>, the entry of
  that check has status \<^verbatim>\<open>'Error'\<close> and the message of \<open>e\<close> as details; and whatever
  the other checks do, a check whose block returns contributes the result it computed.
\<close>

theorem check_exceptions_are_recorded:
  "\<exists>s' report. run_all_tests s = Inr (s', report) \<and>
     (\<forall>e. find_duplicates_try s = Inl e \<longrightarrow>
        entry report ''find_duplicates'' = Some (''Error'', PStr (str_exn e))) \<and>
     (\<forall>e. find_nulls_try s = Inl e \<longrightarrow>
        entry report ''find_nulls'' = Some (''Error'', PStr (str_exn e))) \<and>
     (\<forall>e. check_completeness_try s = Inl e \<longrightarrow>
        entry report ''check_completeness'' = Some (''Error'', PStr (str_exn e))) \<and>
     (\<forall>e. values_range_try s = Inl e \<longrightarrow>
        entry report ''values_range'' = Some (''Error'', PStr (str_exn e))) \<and>
     (\<forall>e. key_density_try s = Inl e \<longrightarrow>
        entry report ''key_density'' = Some (''Error'', PStr (str_exn e))) \<and>
     (\<forall>c e. lud_column s = Some c \<and> c \<noteq> [] \<and> lud_density_try s c = Inl e \<longrightarrow>
        entry report ''lud_density'' = Some (''Error'', PStr (str_exn e))) \<and>
     (\<forall>r. find_duplicates_try s = Inr r \<longrightarrow> entry report ''find_duplicates'' = Some r) \<and>
     (\<forall>r. find_nulls_try s = Inr r \<longrightarrow> entry report ''find_nulls'' = Some r) \<and>
     (\<forall>r. check_completeness_try s = Inr r \<longrightarrow> entry report ''check_completeness'' = Some r) \<and>
     (\<forall>r. values_range_try s = Inr r \<longrightarrow> entry report ''values_range'' = Some r) \<and>
     (\<forall>r. key_density_try s = Inr r \<longrightarrow> entry report ''key_density'' = Some r) \<and>
     (\<forall>c r. lud_column s = Some c \<and> c \<noteq> [] \<and> lud_density_try s c = Inr r \<longrightarrow>
        entry report ''lud_density'' = Some r)"
  by (simp add: run_all_tests_after entry_after_lud entry_after_five outcome_Inl outcome_Inr
      split: option.splits)

subsection \<open>C2: one entry for each check\<close>

lemma keys_summary: "map fst (summary report) = map fst report"
  by (simp add: summary_def case_prod_unfold comp_def)

lemma summary_update:
  "summary (AList.update n r al) = AList.update n (status r, details r) (summary al)"
  by (induction al) (auto simp: summary_def)

lemma summary_store:
  "summary (testing_results (store n b s)) = AList.update n (outcome b) (summary (testing_results s))"
  by (simp add: store_def set_result_def summary_update create_test_result_def)

lemma summary_after_five:
  "summary (testing_results (after_five s)) =
     AList.update ''key_density'' (outcome (key_density_try s))
       (AList.update ''values_range'' (outcome (values_range_try s))
         (AList.update ''check_completeness'' (outcome (check_completeness_try s))
           (AList.update ''find_nulls'' (outcome (find_nulls_try s))
             (AList.update ''find_duplicates'' (outcome (find_duplicates_try s))
                (summary (testing_results s))))))"
  by (simp add: after_five_def summary_store)

lemma summary_after_lud:
  "summary (testing_results (after_lud s)) =
     (case lud_column s of
        None \<Rightarrow> summary (testing_results s)
      | Some c \<Rightarrow>
          if c = [] then summary (testing_results s)
          else AList.update ''lud_density'' (outcome (lud_density_try s c))
                 (summary (testing_results s)))"
  by (simp add: after_lud_def summary_store split: option.splits)

text \<open>
  Claim C2. On a checker that holds no results yet, \<^verbatim>\<open>run_all_tests\<close> returns a report
  whose names are those of the five unconditional checks, once each and in the order in
  which they run, followed by \<^verbatim>\<open>lud_density\<close> exactly when a time column is
  configured, that is when \<^verbatim>\<open>lud_column\<close> is a non-empty name (the test of the code is
  \<^verbatim>\<open>if not self.lud_column\<close>).
\<close>

theorem one_entry_per_check:
  assumes "testing_results s = []"
  shows "\<exists>s' report. run_all_tests s = Inr (s', report) \<and>
           map fst report =
             [''find_duplicates'', ''find_nulls'', ''check_completeness'', ''values_range'',
              ''key_density''] @
             (case lud_column s of
                None \<Rightarrow> []
              | Some c \<Rightarrow> if c = [] then [] else [''lud_density''])"
proof -
  have "summary (testing_results s) = []"
    using assms by (simp add: summary_def)
  then have "map fst (summary (testing_results (after_lud (after_five s)))) =
     [''find_duplicates'', ''find_nulls'', ''check_completeness'', ''values_range'',
      ''key_density''] @
     (case lud_column s of None \<Rightarrow> [] | Some c \<Rightarrow> if c = [] then [] else [''lud_density''])"
    by (simp add: summary_after_lud summary_after_five split: option.splits)
  then show ?thesis
    by (simp add: run_all_tests_after keys_summary)
qed

subsection \<open>C6: find_duplicates counts duplicated key combinations\<close>

lemma first_unresolved_None:
  "(first_unresolved df cs = None) = (set cs \<subseteq> set (df_columns df))"
  by (auto simp: first_unresolved_def find_None_iff)

lemma count_list_map_key:
  "count_list (map key rs) k = length (filter (\<lambda>r. key r = k) rs)"
  by (induction rs) auto

lemma length_filter_group_count:
  "length (filter (\<lambda>(k, n). P n) (group_count rs key)) =
     card {k. k \<in> key ` set rs \<and> P (length (filter (\<lambda>r. key r = k) rs))}"
proof -
  let ?ks = "map key rs"
  have "length (filter (\<lambda>(k, n). P n) (group_count rs key)) =
        length (filter (\<lambda>k. P (count_list ?ks k)) (remdups ?ks))"
    by (simp add: group_count_def Let_def filter_map comp_def)
  also have "\<dots> = card (set (filter (\<lambda>k. P (count_list ?ks k)) (remdups ?ks)))"
    by (rule distinct_card [symmetric]) simp
  also have "set (filter (\<lambda>k. P (count_list ?ks k)) (remdups ?ks)) =
             {k. k \<in> key ` set rs \<and> P (length (filter (\<lambda>r. key r = k) rs))}"
    by (auto simp: count_list_map_key)
  finally show ?thesis .
qed

lemma duplicated_keys_alt:
  "duplicated_keys df cs =
     {k. k \<in> (\<lambda>r. map r cs) ` set (df_rows df) \<and>
         1 < length (filter (\<lambda>r. map r cs = k) (df_rows df))}"
proof -
  have "k \<in> (\<lambda>r. map r cs) ` set rs" if "1 < length (filter (\<lambda>r. map r cs = k) rs)"
    for k and rs :: "row list"
  proof -
    from that have "filter (\<lambda>r. map r cs = k) rs \<noteq> []" by auto
    then obtain r where "r \<in> set (filter (\<lambda>r. map r cs = k) rs)"
      by (meson last_in_set)
    then show ?thesis by auto
  qed
  then show ?thesis
    by (auto simp: duplicated_keys_def rows_with_key_def)
qed

lemma duplicates_count_card:
  assumes "set cs \<subseteq> set (df_columns df)" and "df_fails df (QDuplicates cs) = None"
  shows "duplicates_count df cs = Inr (card (duplicated_keys df cs))"
  using assms
  by (simp add: duplicates_count_def first_unresolved_None [THEN iffD2] run_query_def
      length_filter_group_count duplicated_keys_alt)

lemma finite_duplicated_keys: "finite (duplicated_keys df cs)"
  by (simp add: duplicated_keys_alt)

text \<open>
  Claim C6. When the key columns are columns of the table and Spark answers the query,
  \<^verbatim>\<open>find_duplicates\<close> stores \<^verbatim>\<open>'Passed'\<close> if no combination of key values occurs in more
  than one row and \<^verbatim>\<open>'Failed'\<close> otherwise, and the count it reports is the number of
  such combinations: a combination carried by \<open>n > 1\<close> rows counts once, however large
  \<open>n\<close> is.
\<close>

theorem find_duplicates_counts_groups:
  assumes "set (key_columns s) \<subseteq> set (df_columns (table_df s))"
    and "df_fails (table_df s) (QDuplicates (key_columns s)) = None"
  shows "\<exists>s'. find_duplicates s = Inr s' \<and>
           entry (testing_results s') ''find_duplicates'' =
             Some (if card (duplicated_keys (table_df s) (key_columns s)) = 0
                   then ''Passed'' else ''Failed'',
                   PDict [(''duplicated_rows_count'',
                           PInt (int (card (duplicated_keys (table_df s) (key_columns s)))))])"
  using assms
  by (simp add: find_duplicates_def try_except_outcome entry_set_result
      find_duplicates_try_def duplicates_count_card outcome_Inr)

subsection \<open>C8: find_nulls counts nulls column by column\<close>

lemma null_count_answered:
  "c \<in> set (df_columns df) \<Longrightarrow> df_fails df (QNullCount c) = None \<Longrightarrow>
     null_count df c = Inr (nulls_in df c)"
  by (simp add: null_count_def run_query_def nulls_in_def)

lemma null_details_of_answered:
  assumes "null_queries_answered df cs"
  shows "\<exists>nd. null_details_of df cs d = Inr nd \<and>
           map_of nd = (\<lambda>c. if c \<in> set cs then Some (nulls_in df c) else map_of d c) \<and>
           (distinct (map fst d) \<longrightarrow> distinct (map fst nd))"
  using assms
proof (induction cs arbitrary: d)
  case Nil
  then show ?case by simp
next
  case (Cons c cs)
  then have c: "null_count df c = Inr (nulls_in df c)"
    by (simp add: null_queries_answered_def null_count_answered)
  from Cons.prems have "null_queries_answered df cs"
    by (simp add: null_queries_answered_def)
  from Cons.IH [OF this, of "AList.update c (nulls_in df c) d"]
  obtain nd where nd: "null_details_of df cs (AList.update c (nulls_in df c) d) = Inr nd"
    "map_of nd = (\<lambda>x. if x \<in> set cs then Some (nulls_in df x)
                        else map_of (AList.update c (nulls_in df c) d) x)"
    "distinct (map fst (AList.update c (nulls_in df c) d)) \<longrightarrow> distinct (map fst nd)"
    by blast
  show ?case
  proof (intro exI conjI)
    show "null_details_of df (c # cs) d = Inr nd"
      by (simp add: c nd(1))
    show "map_of nd = (\<lambda>x. if x \<in> set (c # cs) then Some (nulls_in df x) else map_of d x)"
      by (auto simp: nd(2) update_conv)
    show "distinct (map fst d) \<longrightarrow> distinct (map fst nd)"
      using nd(3) by (simp add: distinct_update)
  qed
qed

lemma null_details_of_empty:
  assumes "null_queries_answered df cs"
  shows "\<exists>nd. null_details_of df cs [] = Inr nd \<and>
           (\<forall>c. map_of nd c = (if c \<in> set cs then Some (nulls_in df c) else None)) \<and>
           distinct (map fst nd)"
  using null_details_of_answered [OF assms, of "[]"] by auto

lemma sum_list_snd_distinct:
  assumes "distinct (map fst al)"
  shows "sum_list (map snd al) = (\<Sum>k \<in> set (map fst al). the (map_of al k))"
  using assms
proof (induction al)
  case Nil
  then show ?case by simp
next
  case (Cons p al)
  obtain k v where p: "p = (k, v)" by (cases p)
  from Cons.prems have k: "k \<notin> fst ` set al" and d: "distinct (map fst al)"
    by (simp_all add: p)
  have "(\<Sum>x \<in> fst ` set al. the (map_of ((k, v) # al) x)) = (\<Sum>x \<in> fst ` set al. the (map_of al x))"
    using k by (intro sum.cong) auto
  then show ?case
    using k Cons.IH [OF d] by (simp add: p)
qed

lemma nulls_once_per_column:
  "(\<Sum>c \<in> set cs. nulls_in df c) =
     sum_list (map (\<lambda>r. card {c \<in> set cs. r c = PNone}) (df_rows df))"
proof -
  have "(\<Sum>c \<in> set cs. length (filter (\<lambda>r. r c = PNone) rs)) =
        sum_list (map (\<lambda>r. card {c \<in> set cs. r c = PNone}) rs)" for rs :: "row list"
  proof (induction rs)
    case Nil
    then show ?case by simp
  next
    case (Cons r rs)
    have "(\<Sum>c \<in> set cs. length (filter (\<lambda>r. r c = PNone) (r # rs))) =
          (\<Sum>c \<in> set cs. (if r c = PNone then 1 else 0)) +
          (\<Sum>c \<in> set cs. length (filter (\<lambda>r. r c = PNone) rs))"
      unfolding sum.distrib [symmetric] by (intro sum.cong) auto
    also have "(\<Sum>c \<in> set cs. (if r c = PNone then 1 else 0)) = card {c \<in> set cs. r c = PNone}"
      by (simp flip: sum.inter_filter)
    finally show ?case
      by (simp add: Cons.IH)
  qed
  then show ?thesis
    by (simp add: nulls_in_def)
qed

text \<open>
  Claim C8. When the null counts of the key columns can be asked for, \<^verbatim>\<open>find_nulls\<close>
  stores \<^verbatim>\<open>'Passed'\<close> if the null counts of the key columns sum to 0 and \<^verbatim>\<open>'Failed'\<close>
  otherwise; the details hold that total and one count for each key column. A row adds
  to the total once for every key column in which it is null.
\<close>

theorem find_nulls_counts_per_column:
  assumes "null_queries_answered (table_df s) (key_columns s)"
  shows "\<exists>s' nd. find_nulls s = Inr s' \<and>
           entry (testing_results s') ''find_nulls'' =
             Some (if (\<Sum>c \<in> set (key_columns s). nulls_in (table_df s) c) = 0
                   then ''Passed'' else ''Failed'',
                   PDict [(''total_null_count'',
                           PInt (int (\<Sum>c \<in> set (key_columns s). nulls_in (table_df s) c))),
                          (''nulls_by_column'', PDict (map (\<lambda>(c, n). (c, PInt (int n))) nd))]) \<and>
           distinct (map fst nd) \<and> set (map fst nd) = set (key_columns s) \<and>
           (\<forall>c \<in> set (key_columns s). map_of nd c = Some (nulls_in (table_df s) c)) \<and>
           (\<Sum>c \<in> set (key_columns s). nulls_in (table_df s) c) =
             sum_list (map (\<lambda>r. card {c \<in> set (key_columns s). r c = PNone})
                        (df_rows (table_df s)))"
proof -
  from null_details_of_empty [OF assms]
  obtain nd where nd1: "null_details_of (table_df s) (key_columns s) [] = Inr nd"
    and look: "\<And>c. map_of nd c =
      (if c \<in> set (key_columns s) then Some (nulls_in (table_df s) c) else None)"
    and dist: "distinct (map fst nd)"
    by auto
  have "set (map fst nd) = dom (map_of nd)"
    by (simp add: dom_map_of_conv_image_fst)
  also have "\<dots> = set (key_columns s)"
    by (auto simp: look dom_def)
  finally have keys: "set (map fst nd) = set (key_columns s)" .
  have "sum_list (map snd nd) = (\<Sum>c \<in> set (map fst nd). the (map_of nd c))"
    by (rule sum_list_snd_distinct [OF dist])
  also have "\<dots> = (\<Sum>c \<in> set (key_columns s). the (map_of nd c))"
    by (simp only: keys)
  also have "\<dots> = (\<Sum>c \<in> set (key_columns s). nulls_in (table_df s) c)"
    by (rule sum.cong) (simp_all add: look)
  finally have tot: "sum_list (map snd nd) = (\<Sum>c \<in> set (key_columns s). nulls_in (table_df s) c)" .
  have body: "find_nulls_try s =
          Inr (if (\<Sum>c \<in> set (key_columns s). nulls_in (table_df s) c) = 0
               then ''Passed'' else ''Failed'',
               PDict [(''total_null_count'',
                       PInt (int (\<Sum>c \<in> set (key_columns s). nulls_in (table_df s) c))),
                      (''nulls_by_column'', PDict (map (\<lambda>(c, n). (c, PInt (int n))) nd))])"
    by (simp add: find_nulls_try_def nd1 tot del: sum_list_eq_0_iff)
  define s' where "s' = set_result ''find_nulls''
      (if (\<Sum>c \<in> set (key_columns s). nulls_in (table_df s) c) = 0
       then ''Passed'' else ''Failed'')
      (PDict [(''total_null_count'',
               PInt (int (\<Sum>c \<in> set (key_columns s). nulls_in (table_df s) c))),
              (''nulls_by_column'', PDict (map (\<lambda>(c, n). (c, PInt (int n))) nd))]) s"
  show ?thesis
  proof (intro exI conjI ballI)
    show "find_nulls s = Inr s'"
      by (simp only: s'_def find_nulls_def body try_except_outcome outcome_Inr fst_conv snd_conv)
    show "entry (testing_results s') ''find_nulls'' =
        Some (if (\<Sum>c \<in> set (key_columns s). nulls_in (table_df s) c) = 0
              then ''Passed'' else ''Failed'',
              PDict [(''total_null_count'',
                      PInt (int (\<Sum>c \<in> set (key_columns s). nulls_in (table_df s) c))),
                     (''nulls_by_column'', PDict (map (\<lambda>(c, n). (c, PInt (int n))) nd))])"
      unfolding s'_def entry_set_result by simp
    show "distinct (map fst nd)" by (rule dist)
    show "set (map fst nd) = set (key_columns s)" by (rule keys)
    show "map_of nd c = Some (nulls_in (table_df s) c)" if "c \<in> set (key_columns s)" for c
      using that by (simp add: look)
    show "(\<Sum>c \<in> set (key_columns s). nulls_in (table_df s) c) =
        sum_list (map (\<lambda>r. card {c \<in> set (key_columns s). r c = PNone}) (df_rows (table_df s)))"
      by (rule nulls_once_per_column)
  qed
qed

subsection \<open>C10: only the first partition entry reaches the query\<close>

text \<open>
  Claim C10. When the partition dict has entries, \<^verbatim>\<open>_build_query\<close> forms the
  \<^verbatim>\<open>WHERE\<close> clause from the first entry alone, its column and its value or values; the
  query is the one built from a dict that holds only that entry.
\<close>

theorem build_query_first_entry_only:
  "build_query schema name (Some ((key, v) # rest)) = build_query schema name (Some [(key, v)]) \<and>
   build_query schema name (Some ((key, v) # rest)) =
     ''SELECT * FROM '' @ schema @ ''.'' @ name @ '' WHERE '' @ key @ '' in ('' @
       (case v of One x \<Rightarrow> x | Many xs \<Rightarrow> join_str '','' xs) @ '')''"
  by (cases v) (simp_all add: build_query_def)

theorem build_query_first_entry_only_witness:
  "build_query ''shop'' ''orders''
     (Some [(''year'', Many [''2023'', ''2024'']), (''region'', One ''north'')]) =
   ''SELECT * FROM shop.orders WHERE year in (2023,2024)''"
  using build_query_first_entry_only
    [of "''shop''" "''orders''" "''year''" "Many [''2023'', ''2024'']" "[(''region'', One ''north'')]",
      THEN conjunct2]
  by simp

subsection \<open>C4: what makes the constructor fail\<close>

lemma init_example: "init example_env example_config = Inr orders_checker"
  by (simp add: init_def example_config_def validate_inputs_def load_table_data_def
      build_query_def example_env_def df_count_def run_query_def orders_df_def orders_rows_def
      orders_checker_def Let_def)

lemma validate_inputs_valid: "valid_types cfg \<Longrightarrow>
    validate_inputs (arg_table_schema cfg) (arg_table_name cfg) (arg_key_columns cfg) = Inr ()"
  by (auto simp: valid_types_def validate_inputs_def)

lemma validate_inputs_invalid: "\<not> valid_types cfg \<Longrightarrow>
    \<exists>m. validate_inputs (arg_table_schema cfg) (arg_table_name cfg) (arg_key_columns cfg) =
      Inl (Exn ValueError m)"
  by (auto simp: valid_types_def validate_inputs_def split: pyval.splits)

lemma init_invalid:
  assumes "\<not> valid_types cfg"
  shows "\<exists>m. init ev cfg = Inl (Exn ValueError m)"
proof -
  from validate_inputs_invalid [OF assms] obtain m where
    "validate_inputs (arg_table_schema cfg) (arg_table_name cfg) (arg_key_columns cfg) =
       Inl (Exn ValueError m)" ..
  then show ?thesis by (simp add: init_def)
qed

lemma init_valid:
  assumes "valid_types cfg"
  shows "init ev cfg =
    (case load_table_data ev (str_of (arg_table_schema cfg)) (str_of (arg_table_name cfg))
            (arg_partition cfg) of
       Inl e \<Rightarrow> Inl e
     | Inr (df, cols, n) \<Rightarrow>
         Inr \<lparr>table_schema = str_of (arg_table_schema cfg),
              table_name = str_of (arg_table_name cfg),
              key_columns = (case arg_key_columns cfg of PList xs \<Rightarrow> map str_of xs | _ \<Rightarrow> []),
              lud_column = arg_lud_column cfg, partition_dict = arg_partition cfg,
              testing_results = [], table_df = df, table_columns = cols,
              table_count = n, env = ev, clock_reads = 0\<rparr>)"
  by (simp add: init_def validate_inputs_valid [OF assms] Let_def)

lemma main_of_init_error:
  "init ev cfg = Inl e \<Longrightarrow>
     main ev cfg =
       Inl (Exn PyException (''An error occurred while executing the DQ tests: '' @ str_exn e))"
  by (simp add: main_def)

lemma main_of_init_ok: "init ev cfg = Inr s \<Longrightarrow> \<not> isl (main ev cfg)"
  by (simp add: main_def run_all_tests_after)

text \<open>
  Claim C4, as the code has it. The constructor fails with a \<^verbatim>\<open>ValueError\<close> when the
  types of the configuration are invalid, and with a \<^verbatim>\<open>RuntimeError\<close> that wraps the
  cause when the load query fails, the row count fails or the table has no rows;
  \<^verbatim>\<open>main\<close> wraps either in its own exception and prints no report. With valid types
  and a loaded table that has rows the constructor succeeds, whatever the key columns
  are: an empty list of key columns and a key column the table does not have are both
  accepted.
\<close>

theorem init_aborts_on_types_and_load:
  "(\<not> valid_types cfg \<longrightarrow> (\<exists>m. init ev cfg = Inl (Exn ValueError m))) \<and>
   (valid_types cfg \<longrightarrow>
      (\<forall>e. spark_sql ev (load_query cfg) = Inl e \<longrightarrow>
         init ev cfg = Inl (Exn RuntimeError (''Failed to query table: '' @ str_exn e))) \<and>
      (\<forall>df e. spark_sql ev (load_query cfg) = Inr df \<and> df_count df = Inl e \<longrightarrow>
         init ev cfg = Inl (Exn RuntimeError (''Failed to query table: '' @ str_exn e))) \<and>
      (\<forall>df. spark_sql ev (load_query cfg) = Inr df \<and> df_count df = Inr 0 \<longrightarrow>
         init ev cfg = Inl (Exn RuntimeError ''Failed to query table: Table contains no data'')) \<and>
      (\<forall>df n. spark_sql ev (load_query cfg) = Inr df \<and> df_count df = Inr n \<and> 0 < n \<longrightarrow>
         (\<exists>s. init ev cfg = Inr s \<and> table_df s = df \<and> testing_results s = []))) \<and>
   (\<forall>e. init ev cfg = Inl e \<longrightarrow>
      main ev cfg =
        Inl (Exn PyException (''An error occurred while executing the DQ tests: '' @ str_exn e)))"
proof (intro conjI impI allI)
  assume "\<not> valid_types cfg"
  then show "\<exists>m. init ev cfg = Inl (Exn ValueError m)"
    by (rule init_invalid)
next
  fix e
  assume "valid_types cfg" and "spark_sql ev (load_query cfg) = Inl e"
  then show "init ev cfg = Inl (Exn RuntimeError (''Failed to query table: '' @ str_exn e))"
    by (simp add: init_valid load_table_data_def load_query_def)
next
  fix df e
  assume "valid_types cfg" and "spark_sql ev (load_query cfg) = Inr df \<and> df_count df = Inl e"
  then show "init ev cfg = Inl (Exn RuntimeError (''Failed to query table: '' @ str_exn e))"
    by (simp add: init_valid load_table_data_def load_query_def)
next
  fix df
  assume "valid_types cfg" and "spark_sql ev (load_query cfg) = Inr df \<and> df_count df = Inr 0"
  then show "init ev cfg = Inl (Exn RuntimeError ''Failed to query table: Table contains no data'')"
    by (simp add: init_valid load_table_data_def load_query_def)
next
  fix df n
  assume "valid_types cfg"
    and "spark_sql ev (load_query cfg) = Inr df \<and> df_count df = Inr n \<and> 0 < n"
  then show "\<exists>s. init ev cfg = Inr s \<and> table_df s = df \<and> testing_results s = []"
    by (simp add: init_valid load_table_data_def load_query_def)
next
  fix e
  assume "init ev cfg = Inl e"
  then show "main ev cfg =
      Inl (Exn PyException (''An error occurred while executing the DQ tests: '' @ str_exn e))"
    by (rule main_of_init_error)
qed

lemma valid_types_example:
  "valid_types (example_config\<lparr>arg_table_name := PStr ''returns''\<rparr>)"
  by (simp add: valid_types_def example_config_def)

theorem init_aborts_on_types_and_load_witness:
  "init example_env (example_config\<lparr>arg_table_name := PStr ''returns''\<rparr>) =
     Inl (Exn RuntimeError ''Failed to query table: Table or view not found'')"
proof -
  have "spark_sql example_env (load_query (example_config\<lparr>arg_table_name := PStr ''returns''\<rparr>)) =
      Inl (Exn AnalysisException ''Table or view not found'')"
    by (simp add: example_env_def load_query_def example_config_def build_query_def)
  with init_aborts_on_types_and_load
    [of "example_config\<lparr>arg_table_name := PStr ''returns''\<rparr>" example_env]
    valid_types_example
  show ?thesis by simp
qed

theorem init_accepts_any_key_list_counterexample:
  "\<not> isl (init example_env (example_config\<lparr>arg_key_columns := PList []\<rparr>)) \<and>
   \<not> isl (main example_env (example_config\<lparr>arg_key_columns := PList []\<rparr>)) \<and>
   \<not> isl (init example_env (example_config\<lparr>arg_key_columns := PList [PStr ''customer'']\<rparr>)) \<and>
   \<not> isl (main example_env (example_config\<lparr>arg_key_columns := PList [PStr ''customer'']\<rparr>))"
proof -
  have a: "\<exists>s. init example_env (example_config\<lparr>arg_key_columns := PList xs\<rparr>) = Inr s"
    if "list_all is_str xs" for xs
    using that
    by (simp add: init_def example_config_def validate_inputs_def load_table_data_def
      build_query_def example_env_def df_count_def run_query_def orders_df_def orders_rows_def
      Let_def)
  have "\<not> isl (init example_env (example_config\<lparr>arg_key_columns := PList xs\<rparr>)) \<and>
        \<not> isl (main example_env (example_config\<lparr>arg_key_columns := PList xs\<rparr>))"
    if "list_all is_str xs" for xs
  proof -
    from a [OF that] obtain s where
      s: "init example_env (example_config\<lparr>arg_key_columns := PList xs\<rparr>) = Inr s" ..
    show ?thesis
      using main_of_init_ok [OF s] by (simp add: s)
  qed
  from this [of "[]"] this [of "[PStr ''customer'']"] show ?thesis
    by simp
qed

subsection \<open>The checks on the example table\<close>

lemma entry_set_result_same:
  "entry (testing_results (set_result n st d s)) n = Some (st, d)"
  by (simp add: entry_set_result)

lemma orders_fresh: "testing_results orders_checker = []"
  and orders_lud: "lud_column orders_checker = Some ''day''"
  and orders_keys: "key_columns orders_checker = [''id'', ''region'']"
  and orders_table: "table_df orders_checker = orders_df"
  by (simp_all add: orders_checker_def)

lemma orders_duplicates:
  "find_duplicates_try orders_checker =
     Inr (''Failed'', PDict [(''duplicated_rows_count'', PInt 1)])"
  by code_simp

lemma orders_nulls:
  "find_nulls_try orders_checker =
     Inr (''Failed'',
          PDict [(''total_null_count'', PInt 3),
                 (''nulls_by_column'', PDict [(''id'', PInt 1), (''region'', PInt 2)])])"
  by code_simp

lemma faulty_nulls: "find_nulls_try faulty_checker = Inl (Exn PyException ''Job aborted'')"
  by code_simp

lemma faulty_duplicates:
  "find_duplicates_try faulty_checker =
     Inr (''Failed'', PDict [(''duplicated_rows_count'', PInt 1)])"
  by code_simp

theorem check_exceptions_are_recorded_witness:
  "\<exists>s' report. run_all_tests faulty_checker = Inr (s', report) \<and>
     entry report ''find_nulls'' = Some (''Error'', PStr ''Job aborted'') \<and>
     entry report ''find_duplicates'' =
       Some (''Failed'', PDict [(''duplicated_rows_count'', PInt 1)])"
proof -
  from check_exceptions_are_recorded [of faulty_checker]
  obtain s' report where r: "run_all_tests faulty_checker = Inr (s', report)"
    and n: "\<forall>e. find_nulls_try faulty_checker = Inl e \<longrightarrow>
      entry report ''find_nulls'' = Some (''Error'', PStr (str_exn e))"
    and d: "\<forall>r. find_duplicates_try faulty_checker = Inr r \<longrightarrow>
      entry report ''find_duplicates'' = Some r"
    by (elim exE conjE) (rule that; assumption)
  from n faulty_nulls have "entry report ''find_nulls'' = Some (''Error'', PStr ''Job aborted'')"
    by simp
  moreover from d faulty_duplicates have "entry report ''find_duplicates'' =
      Some (''Failed'', PDict [(''duplicated_rows_count'', PInt 1)])"
    by simp
  ultimately show ?thesis
    using r by (intro exI conjI)
qed

theorem one_entry_per_check_witness:
  "\<exists>s' report. run_all_tests orders_checker = Inr (s', report) \<and>
     map fst report =
       [''find_duplicates'', ''find_nulls'', ''check_completeness'', ''values_range'',
        ''key_density'', ''lud_density'']"
  using one_entry_per_check [OF orders_fresh]
  by (simp add: orders_lud)

theorem find_duplicates_counts_groups_witness:
  "card (duplicated_keys orders_df [''id'', ''region'']) = 1 \<and>
   (\<exists>s'. find_duplicates orders_checker = Inr s' \<and>
      entry (testing_results s') ''find_duplicates'' =
        Some (''Failed'', PDict [(''duplicated_rows_count'', PInt 1)]))"
proof -
  have cols: "set (key_columns orders_checker) \<subseteq> set (df_columns (table_df orders_checker))"
    and ok: "df_fails (table_df orders_checker) (QDuplicates (key_columns orders_checker)) = None"
    by (simp_all add: orders_keys orders_table orders_df_def)
  from find_duplicates_counts_groups [OF cols ok]
  obtain s' where s': "find_duplicates orders_checker = Inr s'"
    and e: "entry (testing_results s') ''find_duplicates'' =
      Some (if card (duplicated_keys (table_df orders_checker) (key_columns orders_checker)) = 0
            then ''Passed'' else ''Failed'',
            PDict [(''duplicated_rows_count'',
              PInt (int (card (duplicated_keys (table_df orders_checker)
                (key_columns orders_checker)))))])"
    by (elim exE conjE) (rule that; assumption)
  have "find_duplicates orders_checker =
      Inr (set_result ''find_duplicates'' ''Failed''
        (PDict [(''duplicated_rows_count'', PInt 1)]) orders_checker)"
    by (simp add: find_duplicates_def try_except_def orders_duplicates)
  with s' have "s' = set_result ''find_duplicates'' ''Failed''
        (PDict [(''duplicated_rows_count'', PInt 1)]) orders_checker"
    by simp
  then have "entry (testing_results s') ''find_duplicates'' =
      Some (''Failed'', PDict [(''duplicated_rows_count'', PInt 1)])"
    by (simp only: entry_set_result_same)
  moreover from this e
  have "card (duplicated_keys (table_df orders_checker) (key_columns orders_checker)) = 1"
    by (simp split: if_splits)
  ultimately show ?thesis
    using s' by (simp add: orders_keys orders_table)
qed

theorem find_nulls_counts_per_column_witness:
  "(\<Sum>c \<in> set [''id'', ''region'']. nulls_in orders_df c) = 3 \<and>
   (\<exists>s'. find_nulls orders_checker = Inr s' \<and>
      entry (testing_results s') ''find_nulls'' =
        Some (''Failed'',
              PDict [(''total_null_count'', PInt 3),
                     (''nulls_by_column'', PDict [(''id'', PInt 1), (''region'', PInt 2)])]))"
proof -
  have ok: "null_queries_answered (table_df orders_checker) (key_columns orders_checker)"
    by (simp add: null_queries_answered_def orders_keys orders_table orders_df_def)
  from find_nulls_counts_per_column [OF ok]
  obtain s' nd where s': "find_nulls orders_checker = Inr s'"
    and e: "entry (testing_results s') ''find_nulls'' =
      Some (if (\<Sum>c \<in> set (key_columns orders_checker). nulls_in (table_df orders_checker) c) = 0
            then ''Passed'' else ''Failed'',
            PDict [(''total_null_count'',
                    PInt (int (\<Sum>c \<in> set (key_columns orders_checker).
                      nulls_in (table_df orders_checker) c))),
                   (''nulls_by_column'', PDict (map (\<lambda>(c, n). (c, PInt (int n))) nd))])"
    by (elim exE conjE) (rule that; assumption)
  have "find_nulls orders_checker =
      Inr (set_result ''find_nulls'' ''Failed''
        (PDict [(''total_null_count'', PInt 3),
                (''nulls_by_column'', PDict [(''id'', PInt 1), (''region'', PInt 2)])])
        orders_checker)"
    by (simp add: find_nulls_def try_except_def orders_nulls)
  with s' have "s' = set_result ''find_nulls'' ''Failed''
        (PDict [(''total_null_count'', PInt 3),
                (''nulls_by_column'', PDict [(''id'', PInt 1), (''region'', PInt 2)])])
        orders_checker"
    by simp
  then have r: "entry (testing_results s') ''find_nulls'' =
      Some (''Failed'',
            PDict [(''total_null_count'', PInt 3),
                   (''nulls_by_column'', PDict [(''id'', PInt 1), (''region'', PInt 2)])])"
    by (simp only: entry_set_result_same)
  from r e have "int (\<Sum>c \<in> set (key_columns orders_checker).
      nulls_in (table_df orders_checker) c) = 3"
    by simp
  then have "(\<Sum>c \<in> set [''id'', ''region'']. nulls_in orders_df c) = 3"
    by (simp only: orders_keys orders_table of_nat_eq_iff [of _ 3, simplified])
  with s' r show ?thesis by (intro conjI exI)
qed

subsection \<open>values_range and key_density\<close>

lemma py_float_error: "py_float parse v = Inl e \<Longrightarrow> value_or_type_error e"
  by (cases v) (auto simp: value_or_type_error_def split: option.splits)

lemma column_range_kept:
  "(\<exists>ent. column_range df parse c = Inr ent) = range_kept df parse c"
  by (auto simp: column_range_def range_kept_def is_number_def split: sum.splits prod.splits)

lemma column_range_entry:
  "column_range df parse c = Inr ent \<Longrightarrow>
     \<exists>mx mn av. select_stats df c = Inr (mx, mn, av) \<and>
       ent = PDict [(''max'', py_str mx), (''min'', py_str mn), (''avg'', py_str av)]"
  by (auto simp: column_range_def split: sum.splits prod.splits)

lemma keys_update: "fst ` set (AList.update k v al) = insert k (fst ` set al)"
  by (induction al) auto

lemma values_range_loop_keys:
  "values_range_loop df parse cs d = Inr rd \<Longrightarrow>
     fst ` set rd = fst ` set d \<union> {c \<in> set cs. range_kept df parse c}"
proof (induction cs arbitrary: d)
  case Nil
  then show ?case by simp
next
  case (Cons c cs)
  show ?case
  proof (cases "column_range df parse c")
    case (Inl e)
    then have "\<not> range_kept df parse c"
      using column_range_kept [of df parse c] by simp
    moreover from Cons.prems Inl have "values_range_loop df parse cs d = Inr rd"
      by (simp split: if_splits)
    ultimately show ?thesis
      using Cons.IH [of d] by auto
  next
    case (Inr ent)
    then have "range_kept df parse c"
      using column_range_kept [of df parse c] by auto
    moreover from Cons.prems Inr
    have "values_range_loop df parse cs (AList.update c ent d) = Inr rd"
      by simp
    ultimately show ?thesis
      using Cons.IH [of "AList.update c ent d"] by (auto simp: keys_update)
  qed
qed

lemma values_range_try_shape:
  assumes "values_range_try s = Inr (st, d)"
  shows "st = ''Passed'' \<and>
    (\<exists>rd. d = PDict [(''values_range_details'', PDict rd)] \<and>
       fst ` set rd =
         {c \<in> set (non_key_columns s). range_kept (table_df s) (float_of_string (env s)) c})"
proof -
  from assms obtain rd where
    rd: "values_range_loop (table_df s) (float_of_string (env s)) (non_key_columns s) [] = Inr rd"
    and d: "st = ''Passed''" "d = PDict [(''values_range_details'', PDict rd)]"
    by (auto simp: values_range_try_def split: sum.splits)
  from values_range_loop_keys [OF rd] d show ?thesis
    by simp
qed

lemma key_density_try_shape: "key_density_try s = Inr (st, d) \<Longrightarrow> st = ''Passed''"
  by (auto simp: key_density_try_def split: sum.splits)

subsection \<open>The loops over the non-key columns\<close>

lemma list_of_set_distinct: "distinct (list_of_set order xs)"
  by (simp add: list_of_set_def Let_def)

lemma list_of_set_set: "set (list_of_set order xs) = set xs"
  by (simp add: list_of_set_def Let_def)


lemma completeness_loop_returns:
  assumes "completeness_loop df cnt cs d st = Inr (d', st')"
  shows "map_of d' =
      (\<lambda>c. if c \<in> set cs
           then Some (PStr (str_int (py_int (projr (null_percentage df cnt c))) @ ''%''))
           else map_of d c) \<and>
    (distinct (map fst d) \<longrightarrow> distinct (map fst d')) \<and>
    st' = (if \<exists>c \<in> set cs. 5 < projr (null_percentage df cnt c) then ''Failed'' else st)"
  using assms
proof (induction cs arbitrary: d st)
  case Nil
  then show ?case by simp
next
  case (Cons c cs)
  from Cons.prems obtain p where p: "null_percentage df cnt c = Inr p"
    and rest: "completeness_loop df cnt cs
        (AList.update c (PStr (str_int (py_int p) @ ''%'')) d)
        (if 5 < p then ''Failed'' else st) = Inr (d', st')"
    by (auto split: sum.splits)
  from Cons.IH [OF rest] p show ?case
    by (auto simp: update_conv distinct_update fun_eq_iff)
qed

lemma values_range_loop_raises:
  "(\<exists>e. values_range_loop df parse cs d = Inl e) =
     (\<exists>c \<in> set cs. \<exists>e. column_range df parse c = Inl e \<and> \<not> value_or_type_error e)"
  by (induction cs arbitrary: d) (auto split: sum.splits)


lemma check_completeness_skipped:
  assumes "set (table_columns s) \<subseteq> set (key_columns s)"
  shows "check_completeness_try s = Inr (''Skipped'', PStr ''Every column is a key column'')"
proof -
  have "set (non_key_columns s) = {}"
    using assms by (auto simp: non_key_columns_def list_of_set_set)
  then show ?thesis
    by (simp add: check_completeness_try_def)
qed

lemma check_completeness_failed_iff:
  assumes "check_completeness_try s = Inr (st, d)" and "non_key_columns s \<noteq> []"
  shows "(st = ''Failed'') =
           (\<exists>c \<in> set (non_key_columns s).
              5 < projr (null_percentage (table_df s) (table_count s) c)) \<and>
         (st = ''Passed'') =
           (\<not> (\<exists>c \<in> set (non_key_columns s).
              5 < projr (null_percentage (table_df s) (table_count s) c)))"
proof -
  from assms obtain nd where
    "completeness_loop (table_df s) (table_count s) (non_key_columns s) [] ''Passed'' = Inr (nd, st)"
    by (auto simp: check_completeness_try_def split: sum.splits)
  from completeness_loop_returns [OF this] show ?thesis
    by auto
qed

lemma column_range_skipped:
  assumes "select_stats df c = Inr v" and "column_range df parse c = Inl e"
  shows "value_or_type_error e"
  using assms by (auto simp: column_range_def split: sum.splits prod.splits dest: py_float_error)

lemma values_range_skips_when_answered:
  assumes "\<forall>c \<in> set (non_key_columns s). \<exists>v. select_stats (table_df s) c = Inr v"
  shows "\<exists>rd. values_range_try s = Inr (''Passed'', PDict [(''values_range_details'', PDict rd)])"
proof -
  have "\<not> (\<exists>e. values_range_loop (table_df s) (float_of_string (env s)) (non_key_columns s) [] = Inl e)"
    using assms by (auto simp: values_range_loop_raises dest: column_range_skipped)
  then obtain rd where
    "values_range_loop (table_df s) (float_of_string (env s)) (non_key_columns s) [] = Inr rd"
    by (cases "values_range_loop (table_df s) (float_of_string (env s)) (non_key_columns s) []") auto
  then show ?thesis
    by (simp add: values_range_try_def)
qed

subsection \<open>C7: values_range on a column that is not numeric\<close>

text \<open>
  Claim C7. \<^verbatim>\<open>values_range\<close> and \<^verbatim>\<open>key_density\<close> return \<^verbatim>\<open>'Passed'\<close> whenever their
  \<^verbatim>\<open>try\<close> block completes, and \<^verbatim>\<open>values_range\<close> keeps a column only if its maximum
  converts to a float (\<open>values_range_try_shape\<close>, \<open>key_density_try_shape\<close>). A column
  that is not numeric is to be skipped silently instead of producing an error, and it is
  when Spark answers the query of its statistics
  (\<open>values_range_skips_when_answered\<close>). The inner handler is
  \<^verbatim>\<open>except (ValueError, TypeError)\<close>, which are the exceptions of \<^verbatim>\<open>float\<close>; the query
  of the statistics stands in the same \<^verbatim>\<open>try\<close>, and what it raises is neither. On \<open>shipped_checker\<close> the maximum of the DATE column \<^verbatim>\<open>shipped\<close> is no
  number, Spark raises an \<^verbatim>\<open>AnalysisException\<close> for \<^verbatim>\<open>avg\<close> over it, the inner handler
  lets it pass, and the whole check ends with status \<^verbatim>\<open>'Error'\<close>: the column is not
  skipped and the numeric columns \<^verbatim>\<open>day\<close> and \<^verbatim>\<open>amount\<close> are not reported.
\<close>

theorem values_range_errors_on_date_column:
  "non_key_columns shipped_checker = [''day'', ''amount'', ''shipped''] \<and>
   \<not> is_number (float_of_string (env shipped_checker)) (fst (df_stats shipped_df ''shipped'')) \<and>
   select_stats shipped_df ''shipped'' =
     Inl (Exn AnalysisException ''cannot resolve avg(shipped) due to data type mismatch'') \<and>
   \<not> value_or_type_error
       (Exn AnalysisException ''cannot resolve avg(shipped) due to data type mismatch'') \<and>
   entry (snd (projr (run_all_tests shipped_checker))) ''values_range'' =
     Some (''Error'', PStr ''cannot resolve avg(shipped) due to data type mismatch'')"
  by code_simp

subsection \<open>C5: the percentages of check_completeness\<close>

text \<open>
  Claim C5. \<^verbatim>\<open>check_completeness\<close> is to report, for each non-key column, the
  percentage \<open>(null count / total row count) \<times> 100\<close> truncated to an integer. The code
  computes the quotient and the product in double precision and truncates the double. On
  the table \<open>sparse_df\<close>, 29 of 100 rows are null in the non-key column \<^verbatim>\<open>x\<close>: the
  percentage is 29 and truncates to 29, but the double nearest to 29/100 times 100 rounds
  to a double just below 29, \<^verbatim>\<open>int\<close> makes 28 of it, and the report says \<^verbatim>\<open>'28%'\<close>.
  The status is \<^verbatim>\<open>'Failed'\<close>, as the claim has it: the comparison with 5 is made on the
  double before it is truncated (\<open>check_completeness_failed_iff\<close>), and a table whose
  columns are all key columns is skipped (\<open>check_completeness_skipped\<close>).
\<close>

theorem check_completeness_truncates_the_double:
  "nulls_in sparse_df ''x'' = 29 \<and> length (df_rows sparse_df) = 100 \<and>
   table_count sparse_checker = 100 \<and>
   py_int (exact_percentage 29 100) = 29 \<and>
   null_percentage sparse_df 100 ''x'' = Inr (fl (fl (29 / 100) * 100)) \<and>
   py_int (fl (fl (29 / 100) * 100)) = 28 \<and>
   entry (snd (projr (run_all_tests sparse_checker))) ''check_completeness'' =
     Some (''Failed'', PDict [(''nulls_percentage_by_column'', PDict [(''x'', PStr ''28%'')])])"
  by code_simp

subsection \<open>Grouping and ordering\<close>

lemma group_count_keys: "map fst (group_count rs key) = remdups (map key rs)"
  by (simp add: group_count_def Let_def comp_def)

lemma group_count_distinct: "distinct (map fst (group_count rs key))"
  by (simp add: group_count_keys)

lemma group_count_length: "length (group_count rs key) = card (key ` set rs)"
proof -
  have "length (group_count rs key) = length (map fst (group_count rs key))" by simp
  also have "\<dots> = card (set (map key rs))"
    unfolding group_count_keys by (simp add: length_remdups_card_conv)
  finally show ?thesis by simp
qed

lemma group_count_member:
  "(v, n) \<in> set (group_count rs key) \<Longrightarrow> n = length (filter (\<lambda>r. key r = v) rs)"
  by (auto simp: group_count_def Let_def count_list_map_key)

lemma group_count_nonempty: "rs \<noteq> [] \<Longrightarrow> group_count rs key \<noteq> []"
  by (cases rs) (auto simp: group_count_def Let_def)

lemma set_insert_desc: "set (insert_desc le x ys) = insert x (set ys)"
  by (induction ys) auto

lemma length_insert_desc: "length (insert_desc le x ys) = Suc (length ys)"
  by (induction ys) auto

lemma set_order_desc: "set (order_desc le xs) = set xs"
  by (induction xs) (simp_all add: order_desc_def set_insert_desc)

lemma length_order_desc: "length (order_desc le xs) = length xs"
  by (induction xs) (simp_all add: order_desc_def length_insert_desc)

lemma distinct_insert_desc:
  "distinct (map fst (insert_desc le x ys)) = (fst x \<notin> fst ` set ys \<and> distinct (map fst ys))"
  by (induction ys) (auto simp: set_insert_desc)

lemma distinct_order_desc:
  "distinct (map fst xs) \<Longrightarrow> distinct (map fst (order_desc le xs))"
proof (induction xs)
  case Nil
  then show ?case by (simp add: order_desc_def)
next
  case (Cons x xs)
  then have "distinct (map fst (order_desc le xs))" and "fst x \<notin> fst ` set (order_desc le xs)"
    by (simp_all add: set_order_desc)
  then have "distinct (map fst (insert_desc le x (order_desc le xs)))"
    by (simp only: distinct_insert_desc simp_thms)
  then show ?case by (simp add: order_desc_def)
qed

lemma sorted_insert_desc:
  assumes tot: "\<forall>a \<in> V. \<forall>b \<in> V. le a b \<or> le b a"
    and trans: "\<forall>a \<in> V. \<forall>b \<in> V. \<forall>d \<in> V. le a b \<and> le b d \<longrightarrow> le a d"
    and "fst x \<in> V" and "fst ` set ys \<subseteq> V"
    and "sorted_wrt (\<lambda>a b. le (fst b) (fst a)) ys"
  shows "sorted_wrt (\<lambda>a b. le (fst b) (fst a)) (insert_desc le x ys)"
  using assms(3-)
proof (induction ys)
  case Nil
  then show ?case by simp
next
  case (Cons y ys)
  from Cons.prems have xV: "fst x \<in> V" and yV: "fst y \<in> V" and ysV: "fst ` set ys \<subseteq> V"
    and ys_le: "\<forall>z \<in> set ys. le (fst z) (fst y)"
    and sorted: "sorted_wrt (\<lambda>a b. le (fst b) (fst a)) ys"
    by simp_all
  show ?case
  proof (cases "le (fst y) (fst x)")
    case True
    have "le (fst z) (fst x)" if "z \<in> set ys" for z
    proof -
      from that ys_le have "le (fst z) (fst y)" by simp
      moreover from that ysV have "fst z \<in> V" by auto
      ultimately show ?thesis
        using trans True xV yV by blast
    qed
    then have "\<forall>z \<in> set (y # ys). le (fst z) (fst x)"
      using True by simp
    then show ?thesis
      using True Cons.prems(3) by simp
  next
    case False
    with tot xV yV have xy: "le (fst x) (fst y)" by blast
    have "sorted_wrt (\<lambda>a b. le (fst b) (fst a)) (insert_desc le x ys)"
      by (rule Cons.IH [OF xV ysV sorted])
    moreover have "\<forall>z \<in> set (insert_desc le x ys). le (fst z) (fst y)"
      using xy ys_le by (simp add: set_insert_desc)
    ultimately show ?thesis
      using False by simp
  qed
qed

lemma sorted_order_desc:
  assumes tot: "\<forall>a \<in> V. \<forall>b \<in> V. le a b \<or> le b a"
    and trans: "\<forall>a \<in> V. \<forall>b \<in> V. \<forall>d \<in> V. le a b \<and> le b d \<longrightarrow> le a d"
    and "fst ` set xs \<subseteq> V"
  shows "sorted_wrt (\<lambda>a b. le (fst b) (fst a)) (order_desc le xs)"
  using assms(3)
proof (induction xs)
  case Nil
  then show ?case by (simp add: order_desc_def)
next
  case (Cons x xs)
  then have 1: "sorted_wrt (\<lambda>a b. le (fst b) (fst a)) (order_desc le xs)" by simp
  have 2: "fst ` set (order_desc le xs) \<subseteq> V" and 3: "fst x \<in> V"
    using Cons.prems by (simp_all add: set_order_desc)
  have "sorted_wrt (\<lambda>a b. le (fst b) (fst a)) (insert_desc le x (order_desc le xs))"
    by (rule sorted_insert_desc [OF tot trans 3 2 1])
  then show ?case by (simp add: order_desc_def)
qed

subsection \<open>C3: lud_density\<close>

lemma two_fifths: "fl (2 / 5) = 3602879701896397 / 9007199254740992"
  by code_simp

lemma group_stats_answered:
  assumes "c \<in> set (df_columns df)" and "df_fails df (QGroupAgg c) = None" and "df_rows df \<noteq> []"
  shows "\<exists>mx mn av n. group_stats df c = Inr (PInt mx, PInt mn, PFloat av, PInt n)"
  using assms group_count_nonempty [of "df_rows df" "\<lambda>r. r c"]
  by (simp add: group_stats_def run_query_def Let_def)

lemma group_first_answered:
  assumes "c \<in> set (df_columns df)" and "df_fails df (QGroupFirst c v) = None"
  shows "\<exists>r. group_first df c v = Inr r"
  using assms by (simp add: group_first_def run_query_def)

lemma ordered_counts_answered:
  assumes "c \<in> set (df_columns df)" and "df_fails df (QGroupOrdered c) = None"
  shows "ordered_counts df c =
    Inr (order_desc (df_leq df) (group_count (df_rows df) (\<lambda>r. r c)))"
  using assms by (simp add: ordered_counts_def run_query_def)

lemma last_luds_avg_seven:
  assumes "7 \<le> length oc"
  shows "last_luds_avg oc = Inr (prior_avg oc)"
proof -
  from assms have "length (last_luds oc) = 6"
    by (simp add: last_luds_def)
  then show ?thesis
    by (simp add: last_luds_avg_def int_truediv_def prior_avg_def last_luds_def)
qed

lemma ratio_to_average_value:
  "ratio_to_average cur av = Inr (if 0 < av then PFloat (ratio_value cur av) else PInt 0)"
  by (simp add: ratio_to_average_def int_float_truediv_def ratio_value_def)

lemma below_acceptable_value:
  "below_acceptable (if 0 < av then PFloat (ratio_value cur av) else PInt 0) =
     (ratio_value cur av < fl (2 / 5))"
  by (simp add: ratio_value_def two_fifths)

lemma moving_average_seven:
  assumes "7 \<le> length oc"
  shows "moving_average oc =
    Inr (PDict
      [(''last_luds_avg'', PStrOf (PFloat (prior_avg oc))),
       (''current_count'', PStr (str_int (int (snd (oc ! 0))))),
       (''ratio_to_average'',
        py_str (if 0 < prior_avg oc then PFloat (ratio_value (snd (oc ! 0)) (prior_avg oc))
                else PInt 0)),
       (''below_acceptable_average'',
        PBool (ratio_value (snd (oc ! 0)) (prior_avg oc) < fl (2 / 5))),
       (''dates_analyzed'',
        PDict [(''current_date'', py_str (fst (oc ! 0))),
               (''analyzed_dates'',
                PList (map (\<lambda>row. py_str (fst row)) (take 6 (drop 1 oc))))])])"
  using assms
  by (simp add: moving_average_def last_luds_avg_seven ratio_to_average_value current_count_def
      below_acceptable_value del: below_acceptable.simps)

lemma moving_average_few:
  assumes "length oc < 7"
  shows "moving_average oc =
    Inr (PDict [(''error'', PStr ''Insufficient data for moving average calculation'')])"
  using assms by (simp add: moving_average_def)

lemma lud_density_details_answered:
  assumes "lud_answered df c" and "df_rows df \<noteq> []"
    and "moving_average (order_desc (df_leq df) (group_count (df_rows df) (\<lambda>r. r c))) = Inr ma"
  shows "\<exists>a b e f. lud_density_details df parse c =
    Inr (PDict [(''max_count'', a), (''min_count'', b), (''avg_count'', e),
                (''distinct_values'', f), (''moving_average'', ma)])"
proof -
  from assms(1) have c: "c \<in> set (df_columns df)" and agg: "df_fails df (QGroupAgg c) = None"
    and first: "\<And>n. df_fails df (QGroupFirst c n) = None"
    and ord: "df_fails df (QGroupOrdered c) = None"
    by (simp_all add: lud_answered_def)
  from group_stats_answered [OF c agg assms(2)] obtain mx mn av n where
    gs: "group_stats df c = Inr (PInt mx, PInt mn, PFloat av, PInt n)" by blast
  from group_first_answered [OF c first] obtain r1 where
    r1: "group_first df c (PInt mx) = Inr r1" by blast
  from group_first_answered [OF c first] obtain r2 where
    r2: "group_first df c (PInt mn) = Inr r2" by blast
  show ?thesis
    by (simp add: lud_density_details_def gs r1 r2 ordered_counts_answered [OF c ord] assms(3))
qed

lemma lud_status_moving_average:
  "lud_status (PDict [(''max_count'', a), (''min_count'', b), (''avg_count'', e),
      (''distinct_values'', f), (''moving_average'', ma)]) =
   (if truthy (py_get ma ''below_acceptable_average'' (PBool True)) then ''Failed'' else ''Passed'')"
  by (simp add: lud_status_def)

text \<open>
  Claim C3. Let a time column be configured, let Spark answer the queries on it and let
  the table have a row. Then \<^verbatim>\<open>lud_density\<close> stores a result. The groups it works on
  are the distinct values of the column, each with its number of rows, in descending
  order of the value when Spark's ordering is a total preorder on those values. With at
  least 7 groups, the current count is the count of the first group, the average is that
  of the counts of the next six, the ratio is their quotient, or 0 when the average is
  not positive, and the status is \<^verbatim>\<open>'Failed'\<close> exactly when the ratio is below 0.4,
  all in double precision; the details carry these values. With fewer than 7 groups the
  details carry the marker of insufficient data and the status is \<^verbatim>\<open>'Failed'\<close>.
\<close>

theorem lud_density_moving_average:
  assumes "lud_column s = Some c" and "c \<noteq> []"
    and "lud_answered (table_df s) c" and "df_rows (table_df s) \<noteq> []"
  shows "\<exists>s' oc st d. lud_density s = Inr s' \<and>
    entry (testing_results s') ''lud_density'' = Some (st, d) \<and>
    ordered_counts (table_df s) c = Inr oc \<and>
    set oc = set (group_count (df_rows (table_df s)) (\<lambda>r. r c)) \<and>
    distinct (map fst oc) \<and>
    length oc = card (column_values (table_df s) c) \<and>
    (leq_linear (table_df s) c \<longrightarrow>
       sorted_wrt (\<lambda>a b. df_leq (table_df s) (fst b) (fst a)) oc) \<and>
    (7 \<le> length oc \<longrightarrow>
       st = (if ratio_value (snd (oc ! 0)) (prior_avg oc) < fl (2 / 5)
             then ''Failed'' else ''Passed'') \<and>
       py_get d ''moving_average'' PNone =
         PDict
          [(''last_luds_avg'', PStrOf (PFloat (prior_avg oc))),
           (''current_count'', PStr (str_int (int (snd (oc ! 0))))),
           (''ratio_to_average'',
            py_str (if 0 < prior_avg oc
                    then PFloat (ratio_value (snd (oc ! 0)) (prior_avg oc)) else PInt 0)),
           (''below_acceptable_average'',
            PBool (ratio_value (snd (oc ! 0)) (prior_avg oc) < fl (2 / 5))),
           (''dates_analyzed'',
            PDict [(''current_date'', py_str (fst (oc ! 0))),
                   (''analyzed_dates'',
                    PList (map (\<lambda>row. py_str (fst row)) (take 6 (drop 1 oc))))])]) \<and>
    (length oc < 7 \<longrightarrow>
       st = ''Failed'' \<and>
       py_get d ''moving_average'' PNone =
         PDict [(''error'', PStr ''Insufficient data for moving average calculation'')])"
proof -
  define df where "df = table_df s"
  define oc where "oc = order_desc (df_leq df) (group_count (df_rows df) (\<lambda>r. r c))"
  from assms(3) have c: "c \<in> set (df_columns df)" and ord: "df_fails df (QGroupOrdered c) = None"
    by (simp_all add: lud_answered_def df_def)
  have oc: "ordered_counts df c = Inr oc"
    unfolding oc_def by (rule ordered_counts_answered [OF c ord])
  have set_oc: "set oc = set (group_count (df_rows df) (\<lambda>r. r c))"
    by (simp add: oc_def set_order_desc)
  have dist: "distinct (map fst oc)"
    unfolding oc_def by (rule distinct_order_desc [OF group_count_distinct])
  have len: "length oc = card (column_values df c)"
    by (simp add: oc_def length_order_desc group_count_length column_values_def)
  have sorted: "sorted_wrt (\<lambda>a b. df_leq df (fst b) (fst a)) oc" if lin: "leq_linear df c"
  proof -
    have "fst ` set (group_count (df_rows df) (\<lambda>r. r c)) =
        set (map fst (group_count (df_rows df) (\<lambda>r. r c)))"
      by simp
    also have "\<dots> = column_values df c"
      unfolding group_count_keys by (simp add: column_values_def)
    finally have sub: "fst ` set (group_count (df_rows df) (\<lambda>r. r c)) \<subseteq> column_values df c"
      by simp
    from lin have tot: "\<forall>a \<in> column_values df c. \<forall>b \<in> column_values df c.
        df_leq df a b \<or> df_leq df b a"
      and trans: "\<forall>a \<in> column_values df c. \<forall>b \<in> column_values df c.
        \<forall>d \<in> column_values df c. df_leq df a b \<and> df_leq df b d \<longrightarrow> df_leq df a d"
      unfolding leq_linear_def by (rule conjunct1, rule conjunct2)
    show ?thesis
      unfolding oc_def by (rule sorted_order_desc [OF tot trans sub])
  qed
  obtain ma where ma: "moving_average oc = Inr ma"
    and ma7: "7 \<le> length oc \<Longrightarrow> ma = PDict
          [(''last_luds_avg'', PStrOf (PFloat (prior_avg oc))),
           (''current_count'', PStr (str_int (int (snd (oc ! 0))))),
           (''ratio_to_average'',
            py_str (if 0 < prior_avg oc
                    then PFloat (ratio_value (snd (oc ! 0)) (prior_avg oc)) else PInt 0)),
           (''below_acceptable_average'',
            PBool (ratio_value (snd (oc ! 0)) (prior_avg oc) < fl (2 / 5))),
           (''dates_analyzed'',
            PDict [(''current_date'', py_str (fst (oc ! 0))),
                   (''analyzed_dates'',
                    PList (map (\<lambda>row. py_str (fst row)) (take 6 (drop 1 oc))))])]"
    and ma6: "length oc < 7 \<Longrightarrow>
      ma = PDict [(''error'', PStr ''Insufficient data for moving average calculation'')]"
  proof (cases "7 \<le> length oc")
    case True
    from moving_average_seven [OF True] True that show ?thesis by simp
  next
    case False
    then have "length oc < 7" by simp
    from moving_average_few [OF this] False that show ?thesis by simp
  qed
  have "\<exists>a b e f. lud_density_details df (float_of_string (env s)) c =
      Inr (PDict [(''max_count'', a), (''min_count'', b), (''avg_count'', e),
                  (''distinct_values'', f), (''moving_average'', ma)])"
    unfolding df_def
    by (rule lud_density_details_answered [OF assms(3) assms(4)])
      (rule ma [unfolded oc_def df_def])
  then obtain a b e f where det: "lud_density_details df (float_of_string (env s)) c =
      Inr (PDict [(''max_count'', a), (''min_count'', b), (''avg_count'', e),
                  (''distinct_values'', f), (''moving_average'', ma)])"
    by (elim exE)
  define d where "d = PDict [(''max_count'', a), (''min_count'', b), (''avg_count'', e),
                  (''distinct_values'', f), (''moving_average'', ma)]"
  define st where
    "st = (if truthy (py_get ma ''below_acceptable_average'' (PBool True)) then ''Failed''
           else ''Passed'')"
  have body: "lud_density_try s c = Inr (st, d)"
    by (simp add: lud_density_try_def det [unfolded df_def] d_def st_def
        lud_status_moving_average)
  have run: "lud_density s = Inr (set_result ''lud_density'' st d s)"
    using assms(1,2) by (simp add: lud_density_def body try_except_def)
  have get: "py_get d ''moving_average'' PNone = ma"
    by (simp add: d_def)
  have st7: "st = (if ratio_value (snd (oc ! 0)) (prior_avg oc) < fl (2 / 5)
      then ''Failed'' else ''Passed'')" if "7 \<le> length oc"
    unfolding st_def ma7 [OF that] by simp
  have st6: "st = ''Failed''" if "length oc < 7"
    unfolding st_def ma6 [OF that] by simp
  show ?thesis
    unfolding df_def [symmetric]
  proof (intro exI conjI impI)
    show "lud_density s = Inr (set_result ''lud_density'' st d s)" by (rule run)
    show "entry (testing_results (set_result ''lud_density'' st d s)) ''lud_density'' = Some (st, d)"
      by (rule entry_set_result_same)
    show "ordered_counts df c = Inr oc" by (rule oc)
    show "set oc = set (group_count (df_rows df) (\<lambda>r. r c))" by (rule set_oc)
    show "distinct (map fst oc)" by (rule dist)
    show "length oc = card (column_values df c)" by (rule len)
    show "sorted_wrt (\<lambda>a b. df_leq df (fst b) (fst a)) oc" if "leq_linear df c"
      using that by (rule sorted)
    show "st = (if ratio_value (snd (oc ! 0)) (prior_avg oc) < fl (2 / 5)
        then ''Failed'' else ''Passed'')" if "7 \<le> length oc"
      using that by (rule st7)
    show "py_get d ''moving_average'' PNone = PDict
          [(''last_luds_avg'', PStrOf (PFloat (prior_avg oc))),
           (''current_count'', PStr (str_int (int (snd (oc ! 0))))),
           (''ratio_to_average'',
            py_str (if 0 < prior_avg oc
                    then PFloat (ratio_value (snd (oc ! 0)) (prior_avg oc)) else PInt 0)),
           (''below_acceptable_average'',
            PBool (ratio_value (snd (oc ! 0)) (prior_avg oc) < fl (2 / 5))),
           (''dates_analyzed'',
            PDict [(''current_date'', py_str (fst (oc ! 0))),
                   (''analyzed_dates'',
                    PList (map (\<lambda>row. py_str (fst row)) (take 6 (drop 1 oc))))])]"
      if "7 \<le> length oc"
      unfolding get by (rule ma7 [OF that])
    show "st = ''Failed''" if "length oc < 7"
      using that by (rule st6)
    show "py_get d ''moving_average'' PNone =
        PDict [(''error'', PStr ''Insufficient data for moving average calculation'')]"
      if "length oc < 7"
      unfolding get by (rule ma6 [OF that])
  qed
qed

lemma orders_ordered:
  "ordered_counts orders_df ''day'' =
     Inr [(PInt 7, 1), (PInt 6, 1), (PInt 5, 1), (PInt 4, 1), (PInt 3, 1), (PInt 2, 1),
          (PInt 1, 1)]"
  by code_simp

lemma orders_ratio:
  "\<not> ratio_value
       (snd ([(PInt 7, 1), (PInt 6, 1), (PInt 5, 1), (PInt 4, 1), (PInt 3, 1), (PInt 2, 1),
              (PInt 1, 1)] ! 0))
       (prior_avg [(PInt 7, 1), (PInt 6, 1), (PInt 5, 1), (PInt 4, 1), (PInt 3, 1),
                   (PInt 2, 1), (PInt 1, 1)]) < fl (2 / 5)"
  by code_simp

lemma orders_leq_linear: "leq_linear orders_df ''day''"
  by code_simp

lemma orders_lud_answered: "lud_answered orders_df ''day''"
  by (simp add: lud_answered_def orders_df_def)

theorem lud_density_moving_average_witness:
  "leq_linear orders_df ''day'' \<and>
   (\<exists>s' d. lud_density orders_checker = Inr s' \<and>
      entry (testing_results s') ''lud_density'' = Some (''Passed'', d))"
proof -
  have rows: "df_rows (table_df orders_checker) \<noteq> []"
    by (simp add: orders_table orders_df_def orders_rows_def)
  have ans: "lud_answered (table_df orders_checker) ''day''"
    by (simp add: orders_table orders_lud_answered)
  have ne: "''day'' \<noteq> []" by simp
  from lud_density_moving_average [OF orders_lud ne ans rows]
  obtain s' oc st d where s': "lud_density orders_checker = Inr s'"
    and e: "entry (testing_results s') ''lud_density'' = Some (st, d)"
    and oc: "ordered_counts (table_df orders_checker) ''day'' = Inr oc"
    and st: "7 \<le> length oc \<longrightarrow>
       st = (if ratio_value (snd (oc ! 0)) (prior_avg oc) < fl (2 / 5)
             then ''Failed'' else ''Passed'') \<and>
       py_get d ''moving_average'' PNone =
         PDict
          [(''last_luds_avg'', PStrOf (PFloat (prior_avg oc))),
           (''current_count'', PStr (str_int (int (snd (oc ! 0))))),
           (''ratio_to_average'',
            py_str (if 0 < prior_avg oc
                    then PFloat (ratio_value (snd (oc ! 0)) (prior_avg oc)) else PInt 0)),
           (''below_acceptable_average'',
            PBool (ratio_value (snd (oc ! 0)) (prior_avg oc) < fl (2 / 5))),
           (''dates_analyzed'',
            PDict [(''current_date'', py_str (fst (oc ! 0))),
                   (''analyzed_dates'',
                    PList (map (\<lambda>row. py_str (fst row)) (take 6 (drop 1 oc))))])]"
    by (elim exE conjE) (rule that; assumption)
  from oc have oc_eq: "oc = [(PInt 7, 1), (PInt 6, 1), (PInt 5, 1), (PInt 4, 1), (PInt 3, 1),
      (PInt 2, 1), (PInt 1, 1)]"
    by (simp add: orders_table orders_ordered)
  have len: "7 \<le> length oc"
    unfolding oc_eq by simp
  have "st = ''Passed''"
    using st [THEN mp, OF len, THEN conjunct1] unfolding oc_eq
    by (simp only: orders_ratio if_False)
  with s' e orders_leq_linear show ?thesis
    by (intro conjI exI) simp_all
qed

lemma moving_average_steady:
  "moving_average [(PInt 7, 10), (PInt 6, 10), (PInt 5, 10), (PInt 4, 10), (PInt 3, 10),
                   (PInt 2, 10), (PInt 1, 10)] =
     Inr (PDict
       [(''last_luds_avg'', PStrOf (PFloat 10)), (''current_count'', PStr ''10''),
        (''ratio_to_average'', PStrOf (PFloat 1)), (''below_acceptable_average'', PBool False),
        (''dates_analyzed'',
         PDict [(''current_date'', PStr ''7''),
                (''analyzed_dates'',
                 PList [PStr ''6'', PStr ''5'', PStr ''4'', PStr ''3'', PStr ''2'', PStr ''1''])])])"
  by code_simp

lemma moving_average_drop:
  "moving_average [(PInt 7, 3), (PInt 6, 10), (PInt 5, 10), (PInt 4, 10), (PInt 3, 10),
                   (PInt 2, 10), (PInt 1, 10)] =
     Inr (PDict
       [(''last_luds_avg'', PStrOf (PFloat 10)), (''current_count'', PStr ''3''),
        (''ratio_to_average'', PStrOf (PFloat (5404319552844595 / 18014398509481984))),
        (''below_acceptable_average'', PBool True),
        (''dates_analyzed'',
         PDict [(''current_date'', PStr ''7''),
                (''analyzed_dates'',
                 PList [PStr ''6'', PStr ''5'', PStr ''4'', PStr ''3'', PStr ''2'', PStr ''1''])])])"
  by code_simp

subsection \<open>C9: two runs over one snapshot\<close>


lemma first_frame [simp]:
  "df_count (df\<lparr>df_first := f\<rparr>) = df_count df"
  "duplicates_count (df\<lparr>df_first := f\<rparr>) cs = duplicates_count df cs"
  "null_count (df\<lparr>df_first := f\<rparr>) c = null_count df c"
  "select_stats (df\<lparr>df_first := f\<rparr>) c = select_stats df c"
  "group_stats (df\<lparr>df_first := f\<rparr>) c = group_stats df c"
  "ordered_counts (df\<lparr>df_first := f\<rparr>) c = ordered_counts df c"
  by (simp_all add: df_count_def duplicates_count_def null_count_def select_stats_def
      group_stats_def ordered_counts_def run_query_def first_unresolved_def
      split: option.splits)

lemma group_first_frame:
  "(group_first (df\<lparr>df_first := f\<rparr>) c n = Inl e) = (group_first df c n = Inl e)"
  by (simp add: group_first_def run_query_def split: option.splits)

lemma null_percentage_frame [simp]:
  "null_percentage (df\<lparr>df_first := f\<rparr>) cnt c = null_percentage df cnt c"
  by (simp add: null_percentage_def)

lemma completeness_loop_frame [simp]:
  "completeness_loop (df\<lparr>df_first := f\<rparr>) cnt cs d st = completeness_loop df cnt cs d st"
  by (induction cs arbitrary: d st) (simp_all split: sum.splits)

lemma column_range_frame [simp]:
  "column_range (df\<lparr>df_first := f\<rparr>) parse c = column_range df parse c"
  by (simp add: column_range_def)

lemma values_range_loop_frame [simp]:
  "values_range_loop (df\<lparr>df_first := f\<rparr>) parse cs d = values_range_loop df parse cs d"
  by (induction cs arbitrary: d) (simp_all split: sum.splits)

lemma null_details_of_frame [simp]:
  "null_details_of (df\<lparr>df_first := f\<rparr>) cs d = null_details_of df cs d"
  by (induction cs arbitrary: d) (simp_all split: sum.splits)




























end
